theory Spec2Isabelle
  imports Main
begin

section \<open>Python strings and values\<close>

text \<open>
  A Python string is the list of its characters, and a character is its code point.
  \<open>uc\<close> is the code point of a character that the source writes in a literal, and
  \<open>ascii\<close> the string of a literal.
\<close>

type_synonym uchar = nat

type_synonym ustr = "nat list"

definition uc :: "char \<Rightarrow> uchar" where
  "uc c = of_char c"

definition ascii :: "string \<Rightarrow> ustr" where
  "ascii s = map uc s"

text \<open>
  The record assembled by \<^verbatim>\<open>LiteratureBuilder\<close> is a Python dict from field
  names to JSON-like values.  \<open>PGen\<close> stands for a generator object (the items it would
  yield), which \<^verbatim>\<open>make_author\<close> creates.  A dict is an association list in
  insertion order with unique keys; the keys the builder writes and reads are the
  literals of the source.
\<close>

datatype pyval =
    PNone
  | PBool bool
  | PInt int
  | PStr ustr
  | PList "pyval list"
  | PDict "(string \<times> pyval) list"
  | PGen "pyval list"

type_synonym dict = "(string \<times> pyval) list"

datatype error = AttributeError | KeyError | ValueError

text \<open>\<^verbatim>\<open>d.get(k)\<close> / \<^verbatim>\<open>k in d\<close> / \<^verbatim>\<open>d[k] = v\<close>.\<close>

definition dict_get :: "dict \<Rightarrow> string \<Rightarrow> pyval option" where
  "dict_get d k = map_of d k"

definition dict_has :: "dict \<Rightarrow> string \<Rightarrow> bool" where
  "dict_has d k = (k \<in> set (map fst d))"

fun dict_set :: "dict \<Rightarrow> string \<Rightarrow> pyval \<Rightarrow> dict" where
  "dict_set [] k v = [(k, v)]"
| "dict_set (p # ps) k v = (if fst p = k then (k, v) # ps else p # dict_set ps k v)"

section \<open>The Python runtime\<close>

text \<open>
  What the builder takes from the interpreter and its library, and what differs
  between versions of Python and of the Unicode tables: the character classes of
  \<^verbatim>\<open>re\<close> and \<^verbatim>\<open>str.strip\<close>, the comparison of a letter of a pattern under
  \<^verbatim>\<open>re.IGNORECASE\<close>, and the conversions \<^verbatim>\<open>int(s)\<close>, \<^verbatim>\<open>str(n)\<close> and
  \<^verbatim>\<open>s.lower()\<close>.  They are parameters of the model; every theorem that names a
  runtime \<open>rt\<close> holds for all of them.
  \<^item> \<open>strips rt c\<close>: \<^verbatim>\<open>strip()\<close> removes \<open>c\<close> at either end of a string;
  \<^item> \<open>is_space rt c\<close>, \<open>is_word rt c\<close>, \<open>is_digit rt c\<close>: \<^verbatim>\<open>\s\<close>, \<^verbatim>\<open>\w\<close>, \<^verbatim>\<open>\d\<close>
    match \<open>c\<close>;
  \<^item> \<open>ignore_case rt a c\<close>: the letter \<open>a\<close> of a pattern compiled with
    \<^verbatim>\<open>re.IGNORECASE\<close> matches \<open>c\<close>;
  \<^item> \<open>py_int rt s\<close>: the value of \<^verbatim>\<open>int(s)\<close>, \<open>None\<close> when it raises ValueError;
  \<^item> \<open>py_str rt n\<close>: the value of \<^verbatim>\<open>str(n)\<close> for an integer, \<open>None\<close> when it raises
    ValueError (the limit on the digits of a conversion);
  \<^item> \<open>py_lower rt s\<close>: the value of \<^verbatim>\<open>s.lower()\<close>.
\<close>

record runtime =
  strips :: "uchar \<Rightarrow> bool"
  is_space :: "uchar \<Rightarrow> bool"
  is_word :: "uchar \<Rightarrow> bool"
  is_digit :: "uchar \<Rightarrow> bool"
  ignore_case :: "char \<Rightarrow> uchar \<Rightarrow> bool"
  py_int :: "ustr \<Rightarrow> int option"
  py_str :: "int \<Rightarrow> ustr option"
  py_lower :: "ustr \<Rightarrow> ustr"

section \<open>The builder\<close>

text \<open>
  \<^verbatim>\<open>self.obj\<close> and \<^verbatim>\<open>self.source\<close>.  A method returns the exception it raised, if
  any, together with the builder as the method left it: a caller that catches the
  exception goes on with that builder.
\<close>

record builder =
  obj :: dict
  source :: ustr

type_synonym outcome = "error option \<times> builder"

definition init :: "ustr \<Rightarrow> builder" where
  "init src = \<lparr>obj = [], source = src\<rparr>"

text \<open>\<^verbatim>\<open>_ensure_field(field_name, value, obj)\<close> on an explicit dict.\<close>

definition ensure_field_in :: "string \<Rightarrow> pyval \<Rightarrow> dict \<Rightarrow> dict" where
  "ensure_field_in field_name v d = (if \<not> dict_has d field_name then dict_set d field_name v else d)"

text \<open>\<^verbatim>\<open>_ensure_field(field_name, value)\<close> on \<^verbatim>\<open>self.obj\<close>.\<close>

definition ensure_field :: "string \<Rightarrow> pyval \<Rightarrow> builder \<Rightarrow> builder" where
  "ensure_field field_name v b = b\<lparr>obj := ensure_field_in field_name v (obj b)\<rparr>"

definition get_source :: "builder \<Rightarrow> ustr option \<Rightarrow> ustr" where
  "get_source b src = (case src of Some s \<Rightarrow> s | None \<Rightarrow> source b)"

text \<open>\<^verbatim>\<open>self.obj[k] = v\<close>.\<close>

definition set_item :: "string \<Rightarrow> pyval \<Rightarrow> builder \<Rightarrow> builder" where
  "set_item k v b = b\<lparr>obj := dict_set (obj b) k v\<rparr>"

text \<open>
  \<^verbatim>\<open>d[k].append(v)\<close> and \<^verbatim>\<open>d[k].extend(vs)\<close> on a dict: a missing key is a
  KeyError, and only a list has these methods.
\<close>

definition append_in :: "string \<Rightarrow> pyval \<Rightarrow> dict \<Rightarrow> error + dict" where
  "append_in k v d =
     (case dict_get d k of
        None \<Rightarrow> Inl KeyError
      | Some (PList xs) \<Rightarrow> Inr (dict_set d k (PList (xs @ [v])))
      | Some _ \<Rightarrow> Inl AttributeError)"

definition extend_in :: "string \<Rightarrow> pyval list \<Rightarrow> dict \<Rightarrow> error + dict" where
  "extend_in k vs d =
     (case dict_get d k of
        None \<Rightarrow> Inl KeyError
      | Some (PList xs) \<Rightarrow> Inr (dict_set d k (PList (xs @ vs)))
      | Some _ \<Rightarrow> Inl AttributeError)"

text \<open>
  \<^verbatim>\<open>self.obj[k].append(v)\<close> and \<^verbatim>\<open>self.obj[k].extend(vs)\<close>; on a failure the builder
  is as it was.
\<close>

definition py_append :: "string \<Rightarrow> pyval \<Rightarrow> builder \<Rightarrow> outcome" where
  "py_append k v b =
     (case append_in k v (obj b) of
        Inl e \<Rightarrow> (Some e, b)
      | Inr d \<Rightarrow> (None, b\<lparr>obj := d\<rparr>))"

definition py_extend :: "string \<Rightarrow> pyval list \<Rightarrow> builder \<Rightarrow> outcome" where
  "py_extend k vs b =
     (case extend_in k vs (obj b) of
        Inl e \<Rightarrow> (Some e, b)
      | Inr d \<Rightarrow> (None, b\<lparr>obj := d\<rparr>))"

text \<open>Sequencing of statements: an exception ends the method.\<close>

definition and_then :: "outcome \<Rightarrow> (builder \<Rightarrow> outcome) \<Rightarrow> outcome" where
  "and_then r f = (case r of (Some e, b) \<Rightarrow> (Some e, b) | (None, b) \<Rightarrow> f b)"

definition done_ok :: "builder \<Rightarrow> outcome" where
  "done_ok b = (None, b)"

section \<open>String methods\<close>

text \<open>The letters \<^verbatim>\<open>A-Z\<close> and \<^verbatim>\<open>a-z\<close> and the digits \<^verbatim>\<open>0-9\<close> of a literal.\<close>

definition upper_chars :: string where
  "upper_chars = ''ABCDEFGHIJKLMNOPQRSTUVWXYZ''"

definition lower_chars :: string where
  "lower_chars = ''abcdefghijklmnopqrstuvwxyz''"

definition digit_chars :: string where
  "digit_chars = ''0123456789''"

text \<open>The range \<^verbatim>\<open>A-Z\<close> of a character class: the 26 code points of these letters.\<close>

definition is_upper :: "uchar \<Rightarrow> bool" where
  "is_upper c = (c \<in> set (ascii upper_chars))"

text \<open>\<^verbatim>\<open>s.strip()\<close>, \<^verbatim>\<open>s.replace(' ', '')\<close>.\<close>

definition py_strip :: "runtime \<Rightarrow> ustr \<Rightarrow> ustr" where
  "py_strip rt s = rev (dropWhile (strips rt) (rev (dropWhile (strips rt) s)))"

definition remove_spaces :: "ustr \<Rightarrow> ustr" where
  "remove_spaces s = filter (\<lambda>c. c \<noteq> uc CHR '' '') s"

text \<open>\<^verbatim>\<open>s.split(sep)\<close> for a one-character separator: every occurrence splits.\<close>

fun py_split :: "uchar \<Rightarrow> ustr \<Rightarrow> ustr list" where
  "py_split sep [] = [[]]"
| "py_split sep (c # cs) =
     (if c = sep then [] # py_split sep cs
      else (case py_split sep cs of
              [] \<Rightarrow> [[c]]
            | p # ps \<Rightarrow> (c # p) # ps))"

text \<open>\<^verbatim>\<open>sep.join(parts)\<close>.\<close>

fun py_join :: "ustr \<Rightarrow> ustr list \<Rightarrow> ustr" where
  "py_join sep [] = []"
| "py_join sep [p] = p"
| "py_join sep (p # q # ps) = p @ sep @ py_join sep (q # ps)"

section \<open>Regular expressions\<close>

text \<open>
  The fragment of \<^verbatim>\<open>re\<close> the builder's patterns use: character classes, sequence,
  alternative, \<^verbatim>\<open>?\<close>, and \<^verbatim>\<open>*\<close> / \<^verbatim>\<open>+\<close> over a character class (a group that
  holds one class, as in \<^verbatim>\<open>(\s)*\<close>, repeats that class).  \<open>rex_k r s k\<close> is the
  backtracking matcher: \<open>r\<close> consumes a prefix of \<open>s\<close> and the continuation \<open>k\<close>
  accepts what is left.
\<close>

datatype rex =
    REps
  | RSym "uchar \<Rightarrow> bool"
  | RCat rex rex
  | RAlt rex rex
  | ROpt rex
  | RStar "uchar \<Rightarrow> bool"

fun star_k :: "(uchar \<Rightarrow> bool) \<Rightarrow> ustr \<Rightarrow> (ustr \<Rightarrow> bool) \<Rightarrow> bool" where
  "star_k p [] k = k []"
| "star_k p (c # cs) k = ((p c \<and> star_k p cs k) \<or> k (c # cs))"

fun rex_k :: "rex \<Rightarrow> ustr \<Rightarrow> (ustr \<Rightarrow> bool) \<Rightarrow> bool" where
  "rex_k REps s k = k s"
| "rex_k (RSym p) s k = (case s of [] \<Rightarrow> False | c # cs \<Rightarrow> p c \<and> k cs)"
| "rex_k (RCat a b) s k = rex_k a s (\<lambda>t. rex_k b t k)"
| "rex_k (RAlt a b) s k = (rex_k a s k \<or> rex_k b s k)"
| "rex_k (ROpt a) s k = (rex_k a s k \<or> k s)"
| "rex_k (RStar p) s k = star_k p s k"

text \<open>\<^verbatim>\<open>pattern.match(s)\<close> is a match object (truthy): some prefix of \<open>s\<close> matches.\<close>

definition re_match :: "rex \<Rightarrow> ustr \<Rightarrow> bool" where
  "re_match r s = rex_k r s (\<lambda>_. True)"

text \<open>\<^verbatim>\<open>pattern.search(s)\<close> is truthy: the pattern matches at some position of \<open>s\<close>.\<close>

fun re_search :: "rex \<Rightarrow> ustr \<Rightarrow> bool" where
  "re_search r [] = re_match r []"
| "re_search r (c # cs) = (re_match r (c # cs) \<or> re_search r cs)"

text \<open>
  A character of a pattern compiled with \<^verbatim>\<open>re.IGNORECASE\<close>: a letter matches as the
  runtime compares it, any other character matches itself only.  \<open>lit\<close> is a literal
  text under \<^verbatim>\<open>re.IGNORECASE\<close>, \<open>one_of_ci\<close> a class of literal characters under it,
  \<open>one_of\<close> a class of literal characters where case plays no part.
\<close>

definition is_letter :: "char \<Rightarrow> bool" where
  "is_letter a = (a \<in> set (upper_chars @ lower_chars))"

definition lit_char :: "runtime \<Rightarrow> char \<Rightarrow> uchar \<Rightarrow> bool" where
  "lit_char rt a c = (if is_letter a then ignore_case rt a c else c = uc a)"

fun lit :: "runtime \<Rightarrow> string \<Rightarrow> rex" where
  "lit rt [] = REps"
| "lit rt (a # as) = RCat (RSym (lit_char rt a)) (lit rt as)"

definition one_of_ci :: "runtime \<Rightarrow> string \<Rightarrow> uchar \<Rightarrow> bool" where
  "one_of_ci rt cs c = list_ex (\<lambda>a. lit_char rt a c) cs"

definition one_of :: "string \<Rightarrow> uchar \<Rightarrow> bool" where
  "one_of cs c = (c \<in> set (ascii cs))"

text \<open>A sequence of patterns; \<^verbatim>\<open>[...]+\<close>.\<close>

fun seq :: "rex list \<Rightarrow> rex" where
  "seq [] = REps"
| "seq (r # rs) = RCat r (seq rs)"

definition RPlus :: "(uchar \<Rightarrow> bool) \<Rightarrow> rex" where
  "RPlus p = RCat (RSym p) (RStar p)"

section \<open>The builder's methods\<close>

subsection \<open>\<^verbatim>\<open>add_abstract\<close>, \<^verbatim>\<open>add_arxiv_eprint\<close>\<close>

definition add_abstract :: "runtime \<Rightarrow> ustr \<Rightarrow> ustr option \<Rightarrow> builder \<Rightarrow> outcome" where
  "add_abstract rt abstract src b =
     (let b1 = ensure_field ''abstracts'' (PList []) b in
      py_append ''abstracts''
        (PDict [(''value'', PStr (py_strip rt abstract)),
                (''source'', PStr (get_source b1 src))]) b1)"

definition add_arxiv_eprint :: "ustr \<Rightarrow> ustr list \<Rightarrow> builder \<Rightarrow> outcome" where
  "add_arxiv_eprint arxiv_id arxiv_categories b =
     (let b1 = ensure_field ''arxiv_eprints'' (PList []) b in
      and_then
        (py_append ''arxiv_eprints''
           (PDict [(''value'', PStr arxiv_id),
                   (''categories'', PList (map PStr arxiv_categories))]) b1)
        (\<lambda>b2. done_ok (set_item ''citeable'' (PBool True) b2)))"

subsection \<open>\<^verbatim>\<open>add_doi\<close>\<close>

text \<open>
  The character classes \<^verbatim>\<open>[\w\-_:;\(\)/\.<>]\<close> and \<^verbatim>\<open>[\w\-_:;\(\)/<>]\<close>, and the
  pattern of \<^verbatim>\<open>_doi_normalization\<close>, compiled with \<^verbatim>\<open>re.VERBOSE + re.IGNORECASE\<close>:
  the white space and the comments of the pattern are no part of it, and the letters
  of its literals and of \<^verbatim>\<open>[Dd]\<close>, \<^verbatim>\<open>[Oo]\<close>, \<^verbatim>\<open>[Ii]\<close> match as the runtime compares
  them.
\<close>

definition doi_char :: "runtime \<Rightarrow> uchar \<Rightarrow> bool" where
  "doi_char rt c = (is_word rt c \<or> one_of ''-_:;()/.<>'' c)"

definition doi_last_char :: "runtime \<Rightarrow> uchar \<Rightarrow> bool" where
  "doi_last_char rt c = (is_word rt c \<or> one_of ''-_:;()/<>'' c)"

definition doi_prefix_pattern :: "runtime \<Rightarrow> rex" where
  "doi_prefix_pattern rt =
     RAlt
       (seq [ROpt (lit rt ''(''), RSym (one_of_ci rt ''Dd''), RSym (one_of_ci rt ''Oo''),
             RSym (one_of_ci rt ''Ii''), RStar (is_space rt), ROpt (lit rt '')''),
             ROpt (lit rt '':''), RStar (is_space rt)])
       (seq [lit rt ''http'', ROpt (lit rt ''s''), lit rt ''://'', ROpt (lit rt ''dx.''),
             lit rt ''doi.org/''])"

definition doi_group_pattern :: "runtime \<Rightarrow> rex" where
  "doi_group_pattern rt =
     seq [lit rt ''10.'',
          RSym (is_digit rt), RSym (is_digit rt), RSym (is_digit rt), RSym (is_digit rt),
          RAlt (lit rt ''/'') (lit rt ''%2f''),
          RPlus (doi_char rt),
          RSym (doi_last_char rt)]"

definition doi_pattern :: "runtime \<Rightarrow> rex" where
  "doi_pattern rt = RCat (ROpt (doi_prefix_pattern rt)) (doi_group_pattern rt)"

definition doi_normalization :: "runtime \<Rightarrow> ustr \<Rightarrow> bool" where
  "doi_normalization rt doi_id = re_match (doi_pattern rt) doi_id"

definition add_doi :: "runtime \<Rightarrow> ustr \<Rightarrow> ustr option \<Rightarrow> builder \<Rightarrow> outcome" where
  "add_doi rt doi src b =
     (let b1 = ensure_field ''dois'' (PList []) b in
      if doi_normalization rt doi then
        and_then
          (py_append ''dois''
             (PDict [(''value'', PStr doi),
                     (''source'', PStr (get_source b1 src))]) b1)
          (\<lambda>b2. done_ok (set_item ''citeable'' (PBool True) b2))
      else done_ok b1)"

subsection \<open>\<^verbatim>\<open>add_author\<close>, \<^verbatim>\<open>make_author\<close>\<close>

definition add_author :: "pyval \<Rightarrow> builder \<Rightarrow> outcome" where
  "add_author author b =
     (let b1 = ensure_field ''authors'' (PList []) b in
      py_append ''authors'' author b1)"

text \<open>\<^verbatim>\<open>not bool(re.compile(r'[^A-Z. ]').search(author_name))\<close>.\<close>

definition verify_author_name_initials :: "ustr \<Rightarrow> bool" where
  "verify_author_name_initials author_name =
     (\<not> re_search (RSym (\<lambda>c. \<not> (is_upper c \<or> one_of ''. '' c))) author_name)"

definition normalize_author_name_with_comma :: "ustr \<Rightarrow> ustr" where
  "normalize_author_name_with_comma author_name =
     (let name = py_split (uc CHR '','') author_name;
          name' = (if length name > 1 \<and> verify_author_name_initials (name ! 1)
                   then name[1 := remove_spaces (name ! 1)] else name)
      in py_join (ascii '', '') name')"

text \<open>
  \<open>supervisor\<close> is any Python value; \<open>affiliations\<close> is \<^verbatim>\<open>None\<close> or a list of
  strings.  The argument of \<^verbatim>\<open>append\<close> is one generator expression.
\<close>

definition make_author :: "ustr \<Rightarrow> ustr list option \<Rightarrow> pyval \<Rightarrow> error + dict" where
  "make_author full_name affiliations supervisor =
     (let author = dict_set [] ''full_name'' (PStr (normalize_author_name_with_comma full_name));
          r = (case affiliations of
                 None \<Rightarrow> Inr author
               | Some affs \<Rightarrow>
                   append_in ''affiliations''
                     (PGen (map (\<lambda>affiliation. PDict [(''value'', PStr affiliation)]) affs))
                     (ensure_field_in ''affiliations'' (PList []) author))
      in case r of
           Inl e \<Rightarrow> Inl e
         | Inr author' \<Rightarrow>
             Inr (if supervisor \<noteq> PNone
                  then dict_set author' ''inspire_roles'' (PList [PStr (ascii ''supervisor'')])
                  else author'))"

text \<open>
  A call of \<^verbatim>\<open>make_author\<close>: an argument the caller leaves out takes the default of
  the signature, \<^verbatim>\<open>affiliations=None\<close> and \<^verbatim>\<open>supervisor=False\<close>.
\<close>

definition call_make_author :: "ustr \<Rightarrow> ustr list option \<Rightarrow> pyval option \<Rightarrow> error + dict" where
  "call_make_author full_name affiliations supervisor =
     make_author full_name affiliations
       (case supervisor of None \<Rightarrow> PBool False | Some v \<Rightarrow> v)"

subsection \<open>\<^verbatim>\<open>add_inspire_categories\<close>, \<^verbatim>\<open>add_private_notes\<close>\<close>

definition add_inspire_categories :: "ustr list \<Rightarrow> ustr option \<Rightarrow> builder \<Rightarrow> outcome" where
  "add_inspire_categories subject_terms src b =
     (let b1 = ensure_field ''inspire_categories'' (PList []) b in
      py_extend ''inspire_categories''
        (map (\<lambda>category. PDict [(''term'', PStr category),
                                 (''source'', PStr (get_source b1 src))]) subject_terms) b1)"

definition add_private_notes :: "ustr \<Rightarrow> ustr option \<Rightarrow> builder \<Rightarrow> outcome" where
  "add_private_notes private_notes src b =
     (let b1 = ensure_field ''_private_notes'' (PList []) b in
      py_append ''_private_notes''
        (PDict [(''value'', PStr private_notes),
                (''source'', PStr (get_source b1 src))]) b1)"

subsection \<open>\<^verbatim>\<open>add_publication_info\<close>\<close>

text \<open>One round of \<^verbatim>\<open>if locals()[key] is not None: item[key] = locals()[key]\<close>.\<close>

definition put_supplied :: "string \<Rightarrow> pyval option \<Rightarrow> dict \<Rightarrow> dict" where
  "put_supplied key v item = (case v of None \<Rightarrow> item | Some x \<Rightarrow> dict_set item key x)"

text \<open>
  \<^verbatim>\<open>key in container\<close> where the container is the value \<^verbatim>\<open>append\<close> has just
  succeeded on, a list: membership is equality with one of its elements.
\<close>

definition list_contains :: "pyval option \<Rightarrow> string \<Rightarrow> bool" where
  "list_contains container key =
     (case container of Some (PList xs) \<Rightarrow> PStr (ascii key) \<in> set xs | _ \<Rightarrow> False)"

text \<open>
  The entry \<^verbatim>\<open>publication_item\<close>: the supplied keys in the order of the loop, then
  \<^verbatim>\<open>number_of_pages\<close> when both page bounds are truthy (non-empty strings) and
  \<^verbatim>\<open>int\<close> raises on neither.  \<open>year\<close> is an integer, the other parameters are
  strings; \<open>None\<close> is a parameter left at its default.
\<close>

definition publication_item ::
  "runtime \<Rightarrow> int option \<Rightarrow> ustr option \<Rightarrow> ustr option \<Rightarrow> ustr option \<Rightarrow> ustr option \<Rightarrow>
   ustr option \<Rightarrow> ustr option \<Rightarrow> ustr option \<Rightarrow> dict" where
  "publication_item rt year cnum artid page_end page_start journal_issue journal_title
       journal_volume =
     (let item =
            (put_supplied ''year'' (map_option PInt year)
            (put_supplied ''journal_volume'' (map_option PStr journal_volume)
            (put_supplied ''journal_title'' (map_option PStr journal_title)
            (put_supplied ''journal_issue'' (map_option PStr journal_issue)
            (put_supplied ''page_start'' (map_option PStr page_start)
            (put_supplied ''page_end'' (map_option PStr page_end)
            (put_supplied ''artid'' (map_option PStr artid)
            (put_supplied ''cnum'' (map_option PStr cnum) []))))))))
      in case (page_start, page_end) of
           (Some ps, Some pe) \<Rightarrow>
             if ps \<noteq> [] \<and> pe \<noteq> [] then
               (case (py_int rt pe, py_int rt ps) of
                  (Some e, Some s) \<Rightarrow> dict_set item ''number_of_pages'' (PInt (e - s + 1))
                | _ \<Rightarrow> item)
             else item
         | _ \<Rightarrow> item)"

definition add_publication_info ::
  "runtime \<Rightarrow> int option \<Rightarrow> ustr option \<Rightarrow> ustr option \<Rightarrow> ustr option \<Rightarrow> ustr option \<Rightarrow>
   ustr option \<Rightarrow> ustr option \<Rightarrow> ustr option \<Rightarrow> builder \<Rightarrow> outcome" where
  "add_publication_info rt year cnum artid page_end page_start journal_issue journal_title
       journal_volume b =
     (let b1 = ensure_field ''publication_info'' (PList []) b in
      and_then
        (py_append ''publication_info''
           (PDict (publication_item rt year cnum artid page_end page_start journal_issue
                     journal_title journal_volume)) b1)
        (\<lambda>b2.
           let has_pub_info =
                 list_all (list_contains (dict_get (obj b2) ''publication_info''))
                   [''year'', ''journal_issue'', ''journal_volume''];
               has_page_or_artid =
                 list_ex (list_contains (dict_get (obj b2) ''publication_info''))
                   [''page_start'', ''page_end'', ''artid'']
           in if has_pub_info \<and> has_page_or_artid
              then done_ok (set_item ''citeable'' (PBool True) b2)
              else done_ok b2))"

subsection \<open>\<^verbatim>\<open>add_imprint_date\<close>, \<^verbatim>\<open>add_preprint_date\<close>, \<^verbatim>\<open>add_thesis\<close>\<close>

definition add_imprint_date :: "ustr \<Rightarrow> builder \<Rightarrow> outcome" where
  "add_imprint_date imprint_date b =
     (let b1 = ensure_field ''imprints'' (PList []) b in
      py_append ''imprints'' (PDict [(''date'', PStr imprint_date)]) b1)"

definition add_preprint_date :: "ustr \<Rightarrow> builder \<Rightarrow> outcome" where
  "add_preprint_date preprint_date b =
     (let b1 = ensure_field ''preprint_date'' (PDict []) b in
      py_append ''preprint_date'' (PDict [(''date'', PStr preprint_date)]) b1)"

definition add_thesis ::
  "runtime \<Rightarrow> ustr option \<Rightarrow> ustr option \<Rightarrow> ustr option \<Rightarrow> ustr option \<Rightarrow> builder \<Rightarrow>
   outcome" where
  "add_thesis rt defense_date degree_type institution date b =
     (let b1 = ensure_field ''thesis_info'' (PDict []) b;
          thesis_item =
            (put_supplied ''date'' (map_option (PStr \<circ> py_lower rt) date)
            (put_supplied ''degree_type'' (map_option (PStr \<circ> py_lower rt) degree_type)
            (put_supplied ''defense_date'' (map_option (PStr \<circ> py_lower rt) defense_date) [])));
          thesis_item' =
            (case institution of
               None \<Rightarrow> thesis_item
             | Some i \<Rightarrow> dict_set thesis_item ''institutions'' (PList [PDict [(''name'', PStr i)]]))
      in done_ok (set_item ''thesis_info'' (PDict thesis_item') b1))"

subsection \<open>The one-entry methods\<close>

definition add_accelerator_experiment :: "ustr \<Rightarrow> builder \<Rightarrow> outcome" where
  "add_accelerator_experiment experiment b =
     (let b1 = ensure_field ''accelerator_experiments'' (PList []) b in
      py_append ''accelerator_experiments'' (PDict [(''legacy_name'', PStr experiment)]) b1)"

definition add_language :: "ustr \<Rightarrow> builder \<Rightarrow> outcome" where
  "add_language language b =
     (let b1 = ensure_field ''languages'' (PList []) b in
      py_append ''languages'' (PStr language) b1)"

definition add_license_url :: "ustr \<Rightarrow> builder \<Rightarrow> outcome" where
  "add_license_url license_url b =
     (let b1 = ensure_field ''license'' (PList []) b in
      py_append ''license'' (PDict [(''url'', PStr license_url)]) b1)"

definition add_public_note :: "ustr \<Rightarrow> ustr option \<Rightarrow> builder \<Rightarrow> outcome" where
  "add_public_note public_notes src b =
     (let b1 = ensure_field ''public_notes'' (PList []) b in
      py_append ''public_notes''
        (PDict [(''value'', PStr public_notes),
                (''source'', PStr (get_source b1 src))]) b1)"

definition add_title :: "ustr \<Rightarrow> ustr option \<Rightarrow> builder \<Rightarrow> outcome" where
  "add_title title src b =
     (let b1 = ensure_field ''titles'' (PList []) b in
      py_append ''titles''
        (PDict [(''title'', PStr title),
                (''source'', PStr (get_source b1 src))]) b1)"

definition add_title_translation ::
  "ustr \<Rightarrow> ustr \<Rightarrow> ustr option \<Rightarrow> builder \<Rightarrow> outcome" where
  "add_title_translation title language src b =
     (let b1 = ensure_field ''title_translations'' (PList []) b in
      py_append ''title_translations''
        (PDict [(''title'', PStr title),
                (''language'', PStr language),
                (''source'', PStr (get_source b1 src))]) b1)"

definition add_url :: "ustr \<Rightarrow> builder \<Rightarrow> outcome" where
  "add_url url b =
     (let b1 = ensure_field ''urls'' (PList []) b in
      py_append ''urls'' (PDict [(''value'', PStr url)]) b1)"

text \<open>\<open>report_numbers\<close> is a list of dicts; \<^verbatim>\<open>get('report_number', '')\<close> reads each.\<close>

definition add_report_numbers :: "dict list \<Rightarrow> ustr option \<Rightarrow> builder \<Rightarrow> outcome" where
  "add_report_numbers report_numbers src b =
     (let b1 = ensure_field ''report_numbers'' (PList []) b in
      py_extend ''report_numbers''
        (map (\<lambda>report_number.
                PDict [(''value'', (case dict_get report_number ''report_number'' of
                                      Some v \<Rightarrow> v | None \<Rightarrow> PStr [])),
                       (''source'', PStr (get_source b1 src))]) report_numbers) b1)"

definition add_collaboration :: "ustr \<Rightarrow> builder \<Rightarrow> outcome" where
  "add_collaboration collaboration b =
     (let b1 = ensure_field ''collaborations'' (PList []) b in
      py_append ''collaborations'' (PDict [(''value'', PStr collaboration)]) b1)"

text \<open>
  \<^verbatim>\<open>add_acquisition_source\<close>: the container is ensured first; \<^verbatim>\<open>str(submission_number)\<close>
  comes next, and a ValueError of it ends the method there.
\<close>

definition add_acquisition_source ::
  "runtime \<Rightarrow> int \<Rightarrow> ustr option \<Rightarrow> ustr option \<Rightarrow> ustr option \<Rightarrow> ustr option \<Rightarrow>
   builder \<Rightarrow> outcome" where
  "add_acquisition_source rt submission_number email src method orcid b =
     (let b1 = ensure_field ''acquisition_source'' (PDict []) b in
      case py_str rt submission_number of
        None \<Rightarrow> (Some ValueError, b1)
      | Some number \<Rightarrow>
          (let acquisition_source =
                 (put_supplied ''orcid'' (map_option PStr orcid)
                 (put_supplied ''method'' (map_option PStr method)
                 (put_supplied ''email'' (map_option PStr email)
                 (dict_set (dict_set [] ''submission_number'' (PStr number))
                    ''source'' (PStr (get_source b1 src))))))
           in done_ok (set_item ''acquisition_source'' (PDict acquisition_source) b1)))"

definition add_document_type :: "ustr \<Rightarrow> builder \<Rightarrow> outcome" where
  "add_document_type document_type b =
     (let b1 = ensure_field ''document_type'' (PList []) b in
      py_append ''document_type'' (PStr document_type) b1)"

section \<open>Build sessions\<close>

text \<open>
  One constructor per method of the builder that a caller can use on the record.  A
  session is a list of calls; an exception of one call does not end the session (the
  caller may catch it and go on with the same builder).
\<close>

datatype call =
    AddAbstract ustr "ustr option"
  | AddArxivEprint ustr "ustr list"
  | AddDoi ustr "ustr option"
  | AddAuthor pyval
  | MakeAuthor ustr "ustr list option" "pyval option"
  | AddInspireCategories "ustr list" "ustr option"
  | AddPrivateNotes ustr "ustr option"
  | AddPublicationInfo "int option" "ustr option" "ustr option" "ustr option"
      "ustr option" "ustr option" "ustr option" "ustr option"
  | AddImprintDate ustr
  | AddPreprintDate ustr
  | AddThesis "ustr option" "ustr option" "ustr option" "ustr option"
  | AddAcceleratorExperiment ustr
  | AddLanguage ustr
  | AddLicenseUrl ustr
  | AddPublicNote ustr "ustr option"
  | AddTitle ustr "ustr option"
  | AddTitleTranslation ustr ustr "ustr option"
  | AddUrl ustr
  | AddReportNumbers "dict list" "ustr option"
  | AddCollaboration ustr
  | AddAcquisitionSource int "ustr option" "ustr option" "ustr option" "ustr option"
  | AddDocumentType ustr

fun exec :: "runtime \<Rightarrow> call \<Rightarrow> builder \<Rightarrow> outcome" where
  "exec rt (AddAbstract a s) b = add_abstract rt a s b"
| "exec rt (AddArxivEprint i cs) b = add_arxiv_eprint i cs b"
| "exec rt (AddDoi d s) b = add_doi rt d s b"
| "exec rt (AddAuthor a) b = add_author a b"
| "exec rt (MakeAuthor n affs su) b =
     (case call_make_author n affs su of Inl e \<Rightarrow> (Some e, b) | Inr _ \<Rightarrow> (None, b))"
| "exec rt (AddInspireCategories ts s) b = add_inspire_categories ts s b"
| "exec rt (AddPrivateNotes n s) b = add_private_notes n s b"
| "exec rt (AddPublicationInfo y c a pe ps ji jt jv) b =
     add_publication_info rt y c a pe ps ji jt jv b"
| "exec rt (AddImprintDate d) b = add_imprint_date d b"
| "exec rt (AddPreprintDate d) b = add_preprint_date d b"
| "exec rt (AddThesis dd dt i d) b = add_thesis rt dd dt i d b"
| "exec rt (AddAcceleratorExperiment e) b = add_accelerator_experiment e b"
| "exec rt (AddLanguage l) b = add_language l b"
| "exec rt (AddLicenseUrl u) b = add_license_url u b"
| "exec rt (AddPublicNote n s) b = add_public_note n s b"
| "exec rt (AddTitle t s) b = add_title t s b"
| "exec rt (AddTitleTranslation t l s) b = add_title_translation t l s b"
| "exec rt (AddUrl u) b = add_url u b"
| "exec rt (AddReportNumbers rs s) b = add_report_numbers rs s b"
| "exec rt (AddCollaboration c) b = add_collaboration c b"
| "exec rt (AddAcquisitionSource n e s m orc) b = add_acquisition_source rt n e s m orc b"
| "exec rt (AddDocumentType d) b = add_document_type d b"

fun run :: "runtime \<Rightarrow> call list \<Rightarrow> builder \<Rightarrow> builder" where
  "run rt [] b = b"
| "run rt (c # cs) b = run rt cs (snd (exec rt c b))"

section \<open>A runtime for the examples\<close>

text \<open>
  The examples need one runtime to run on.  This one has Python 3's classes and
  conversions on ASCII text: white space is the space, \<^verbatim>\<open>\t \n \v \f \r\<close> and the
  four separators \<^verbatim>\<open>\x1c\<close> to \<^verbatim>\<open>\x1f\<close>; a word character is an ASCII letter, digit
  or underscore; a letter of a pattern matches its lower and its upper case;
  \<^verbatim>\<open>int\<close> reads an optional sign and decimal digits, with single underscores
  between digits and white space around, up to 4300 digits; \<^verbatim>\<open>str\<close> writes decimal
  digits, up to 4300; \<^verbatim>\<open>lower\<close> maps \<^verbatim>\<open>A-Z\<close> to \<^verbatim>\<open>a-z\<close>.  It puts no character
  outside ASCII in a class, so it stands for Python on ASCII text only.
\<close>

definition ascii_space_chars :: string where
  "ascii_space_chars =
     [CHR '' '', CHR 0x09, CHR 0x0A, CHR 0x0B, CHR 0x0C, CHR 0x0D,
      CHR 0x1C, CHR 0x1D, CHR 0x1E, CHR 0x1F]"

definition ascii_is_space :: "uchar \<Rightarrow> bool" where
  "ascii_is_space c = (c \<in> set (ascii ascii_space_chars))"

definition ascii_is_digit :: "uchar \<Rightarrow> bool" where
  "ascii_is_digit c = (c \<in> set (ascii digit_chars))"

definition ascii_is_word :: "uchar \<Rightarrow> bool" where
  "ascii_is_word c = (c \<in> set (ascii (upper_chars @ lower_chars @ digit_chars @ ''_'')))"

definition ascii_to_lower :: "char \<Rightarrow> char" where
  "ascii_to_lower a = (case map_of (zip upper_chars lower_chars) a of Some l \<Rightarrow> l | None \<Rightarrow> a)"

definition ascii_to_upper :: "char \<Rightarrow> char" where
  "ascii_to_upper a = (case map_of (zip lower_chars upper_chars) a of Some u \<Rightarrow> u | None \<Rightarrow> a)"

definition ascii_ignore_case :: "char \<Rightarrow> uchar \<Rightarrow> bool" where
  "ascii_ignore_case a c = (c = uc (ascii_to_lower a) \<or> c = uc (ascii_to_upper a))"

definition ascii_lower :: "ustr \<Rightarrow> ustr" where
  "ascii_lower s =
     map (\<lambda>c. case map_of (zip (ascii upper_chars) (ascii lower_chars)) c of
                 Some l \<Rightarrow> l | None \<Rightarrow> c) s"

fun nat_digits :: "nat \<Rightarrow> string" where
  "nat_digits n =
     (if n < 10 then [digit_chars ! n]
      else nat_digits (n div 10) @ [digit_chars ! (n mod 10)])"

declare nat_digits.simps [simp del]

definition ascii_str :: "int \<Rightarrow> ustr option" where
  "ascii_str i =
     (let ds = nat_digits (nat \<bar>i\<bar>)
      in if length ds > 4300 then None
         else Some (ascii (if i < 0 then CHR ''-'' # ds else ds)))"

definition digit_value :: "uchar \<Rightarrow> int" where
  "digit_value c =
     (case map_of (zip (ascii digit_chars) [0, 1, 2, 3, 4, 5, 6, 7, 8, 9]) c of
        Some v \<Rightarrow> v | None \<Rightarrow> 0)"

definition digits_value :: "ustr \<Rightarrow> int" where
  "digits_value ds = foldl (\<lambda>acc c. 10 * acc + digit_value c) 0 ds"

text \<open>Digits with single underscores between them.\<close>

fun grouped_digits :: "ustr \<Rightarrow> bool" where
  "grouped_digits [] = False"
| "grouped_digits [c] = ascii_is_digit c"
| "grouped_digits (c # d # cs) =
     (ascii_is_digit c \<and>
      (if d = uc CHR ''_'' then grouped_digits cs else grouped_digits (d # cs)))"

definition ascii_int :: "ustr \<Rightarrow> int option" where
  "ascii_int s =
     (let t = rev (dropWhile ascii_is_space (rev (dropWhile ascii_is_space s)));
          neg = (case t of c # _ \<Rightarrow> c = uc CHR ''-'' | [] \<Rightarrow> False);
          body = (case t of
                    c # r \<Rightarrow> if c = uc CHR ''-'' \<or> c = uc CHR ''+'' then r else t
                  | [] \<Rightarrow> t);
          ds = filter ascii_is_digit body
      in if grouped_digits body \<and> length ds \<le> 4300
         then Some (if neg then - digits_value ds else digits_value ds)
         else None)"

definition ascii_runtime :: runtime where
  "ascii_runtime =
     \<lparr>strips = ascii_is_space, is_space = ascii_is_space, is_word = ascii_is_word,
      is_digit = ascii_is_digit,
      ignore_case = ascii_ignore_case, py_int = ascii_int, py_str = ascii_str,
      py_lower = ascii_lower\<rparr>"

section \<open>Sequence fields and what a call contributes to them\<close>

text \<open>
  The fields of the record whose container is a list (created by
  \<^verbatim>\<open>_ensure_field(name, [])\<close>), the sequence field a call adds to, and the entries the
  call contributes to it, given the builder's default source.  A DOI that the pattern
  rejects contributes nothing.
\<close>

definition sequence_fields :: "string list" where
  "sequence_fields =
     [''abstracts'', ''arxiv_eprints'', ''dois'', ''authors'', ''inspire_categories'',
      ''_private_notes'', ''publication_info'', ''imprints'', ''accelerator_experiments'',
      ''languages'', ''license'', ''public_notes'', ''titles'', ''title_translations'',
      ''urls'', ''report_numbers'', ''collaborations'', ''document_type'']"

fun adds_to :: "call \<Rightarrow> string option" where
  "adds_to (AddAbstract a s) = Some ''abstracts''"
| "adds_to (AddArxivEprint i cs) = Some ''arxiv_eprints''"
| "adds_to (AddDoi d s) = Some ''dois''"
| "adds_to (AddAuthor a) = Some ''authors''"
| "adds_to (MakeAuthor n affs su) = None"
| "adds_to (AddInspireCategories ts s) = Some ''inspire_categories''"
| "adds_to (AddPrivateNotes n s) = Some ''_private_notes''"
| "adds_to (AddPublicationInfo y c a pe ps ji jt jv) = Some ''publication_info''"
| "adds_to (AddImprintDate d) = Some ''imprints''"
| "adds_to (AddPreprintDate d) = None"
| "adds_to (AddThesis dd dt i d) = None"
| "adds_to (AddAcceleratorExperiment e) = Some ''accelerator_experiments''"
| "adds_to (AddLanguage l) = Some ''languages''"
| "adds_to (AddLicenseUrl u) = Some ''license''"
| "adds_to (AddPublicNote n s) = Some ''public_notes''"
| "adds_to (AddTitle t s) = Some ''titles''"
| "adds_to (AddTitleTranslation t l s) = Some ''title_translations''"
| "adds_to (AddUrl u) = Some ''urls''"
| "adds_to (AddReportNumbers rs s) = Some ''report_numbers''"
| "adds_to (AddCollaboration c) = Some ''collaborations''"
| "adds_to (AddAcquisitionSource n e s m orc) = None"
| "adds_to (AddDocumentType d) = Some ''document_type''"

definition sourced :: "ustr \<Rightarrow> ustr option \<Rightarrow> pyval" where
  "sourced dflt s = PStr (case s of Some x \<Rightarrow> x | None \<Rightarrow> dflt)"

fun contribution :: "runtime \<Rightarrow> ustr \<Rightarrow> call \<Rightarrow> pyval list" where
  "contribution rt dflt (AddAbstract a s) =
     [PDict [(''value'', PStr (py_strip rt a)), (''source'', sourced dflt s)]]"
| "contribution rt dflt (AddArxivEprint i cs) =
     [PDict [(''value'', PStr i), (''categories'', PList (map PStr cs))]]"
| "contribution rt dflt (AddDoi d s) =
     (if doi_normalization rt d
      then [PDict [(''value'', PStr d), (''source'', sourced dflt s)]]
      else [])"
| "contribution rt dflt (AddAuthor a) = [a]"
| "contribution rt dflt (MakeAuthor n affs su) = []"
| "contribution rt dflt (AddInspireCategories ts s) =
     map (\<lambda>t. PDict [(''term'', PStr t), (''source'', sourced dflt s)]) ts"
| "contribution rt dflt (AddPrivateNotes n s) =
     [PDict [(''value'', PStr n), (''source'', sourced dflt s)]]"
| "contribution rt dflt (AddPublicationInfo y c a pe ps ji jt jv) =
     [PDict (publication_item rt y c a pe ps ji jt jv)]"
| "contribution rt dflt (AddImprintDate d) = [PDict [(''date'', PStr d)]]"
| "contribution rt dflt (AddPreprintDate d) = []"
| "contribution rt dflt (AddThesis dd dt i d) = []"
| "contribution rt dflt (AddAcceleratorExperiment e) = [PDict [(''legacy_name'', PStr e)]]"
| "contribution rt dflt (AddLanguage l) = [PStr l]"
| "contribution rt dflt (AddLicenseUrl u) = [PDict [(''url'', PStr u)]]"
| "contribution rt dflt (AddPublicNote n s) =
     [PDict [(''value'', PStr n), (''source'', sourced dflt s)]]"
| "contribution rt dflt (AddTitle t s) =
     [PDict [(''title'', PStr t), (''source'', sourced dflt s)]]"
| "contribution rt dflt (AddTitleTranslation t l s) =
     [PDict [(''title'', PStr t), (''language'', PStr l), (''source'', sourced dflt s)]]"
| "contribution rt dflt (AddUrl u) = [PDict [(''value'', PStr u)]]"
| "contribution rt dflt (AddReportNumbers rs s) =
     map (\<lambda>r. PDict [(''value'', (case dict_get r ''report_number'' of
                                     Some v \<Rightarrow> v | None \<Rightarrow> PStr [])),
                        (''source'', sourced dflt s)]) rs"
| "contribution rt dflt (AddCollaboration c) = [PDict [(''value'', PStr c)]]"
| "contribution rt dflt (AddAcquisitionSource n e s m orc) = []"
| "contribution rt dflt (AddDocumentType d) = [PStr d]"

text \<open>A container after an add method has put the entries \<open>vs\<close> into it.\<close>

definition seq_add :: "pyval option \<Rightarrow> pyval list \<Rightarrow> pyval option" where
  "seq_add container vs =
     (case container of
        None \<Rightarrow> Some (PList vs)
      | Some (PList xs) \<Rightarrow> Some (PList (xs @ vs))
      | Some x \<Rightarrow> Some x)"

text \<open>
  The entries that the calls \<open>cs\<close> contribute to the field \<open>f\<close>, in call order, and
  whether one of them is a call of the add method of \<open>f\<close>.
\<close>

definition contributions :: "runtime \<Rightarrow> ustr \<Rightarrow> string \<Rightarrow> call list \<Rightarrow> pyval list" where
  "contributions rt dflt f cs =
     concat (map (contribution rt dflt) (filter (\<lambda>c. adds_to c = Some f) cs))"

definition added_to :: "string \<Rightarrow> call list \<Rightarrow> bool" where
  "added_to f cs = list_ex (\<lambda>c. adds_to c = Some f) cs"

section \<open>The strings a pattern matches\<close>

text \<open>The language of a pattern: the strings it can consume.\<close>

fun lang :: "rex \<Rightarrow> ustr set" where
  "lang REps = {[]}"
| "lang (RSym p) = {[c] | c. p c}"
| "lang (RCat a b) = {u @ v | u v. u \<in> lang a \<and> v \<in> lang b}"
| "lang (RAlt a b) = lang a \<union> lang b"
| "lang (ROpt a) = insert [] (lang a)"
| "lang (RStar p) = {u. list_all p u}"

text \<open>
  \<open>same_text rt w u\<close>: the string \<open>u\<close> reads as the text \<open>w\<close>, character by
  character, a letter of \<open>w\<close> in any case (as the runtime compares letters under
  \<^verbatim>\<open>re.IGNORECASE\<close>) and any other character of \<open>w\<close> as itself.
\<close>

definition same_text :: "runtime \<Rightarrow> string \<Rightarrow> ustr \<Rightarrow> bool" where
  "same_text rt w u = list_all2 (lit_char rt) w u"

text \<open>
  The shape of a DOI, in words.  A prefix is empty, or \<^verbatim>\<open>doi\<close> in any case, with an
  optional \<^verbatim>\<open>(\<close> before it and then white space, an optional \<^verbatim>\<open>)\<close>, an optional
  \<^verbatim>\<open>:\<close> and white space, or one of the four URLs in any case.  A body is \<^verbatim>\<open>10.\<close>, four
  digits, \<^verbatim>\<open>/\<close> or \<^verbatim>\<open>%2f\<close> in any case, and a suffix of at least two characters that
  are word characters or of \<^verbatim>\<open>-_:;()/.<>\<close>, the last of them a word character or of
  \<^verbatim>\<open>-_:;()/<>\<close> (no period).  A string has the shape when it begins with a prefix and
  a body.
\<close>

definition doi_prefix :: "runtime \<Rightarrow> ustr \<Rightarrow> bool" where
  "doi_prefix rt p \<longleftrightarrow>
     p = [] \<or>
     (\<exists>l x1 x2 x3 w1 r c w2.
        p = l @ [x1, x2, x3] @ w1 @ r @ c @ w2 \<and>
        (l = [] \<or> l = ascii ''('') \<and>
        one_of_ci rt ''Dd'' x1 \<and> one_of_ci rt ''Oo'' x2 \<and> one_of_ci rt ''Ii'' x3 \<and>
        list_all (is_space rt) w1 \<and> (r = [] \<or> r = ascii '')'') \<and>
        (c = [] \<or> c = ascii '':'') \<and> list_all (is_space rt) w2) \<or>
     same_text rt ''http://doi.org/'' p \<or> same_text rt ''https://doi.org/'' p \<or>
     same_text rt ''http://dx.doi.org/'' p \<or> same_text rt ''https://dx.doi.org/'' p"

definition doi_body :: "runtime \<Rightarrow> ustr \<Rightarrow> bool" where
  "doi_body rt u \<longleftrightarrow>
     (\<exists>ds sep suffix.
        u = ascii ''10.'' @ ds @ sep @ suffix \<and>
        length ds = 4 \<and> list_all (is_digit rt) ds \<and>
        (sep = ascii ''/'' \<or> same_text rt ''%2f'' sep) \<and>
        2 \<le> length suffix \<and> list_all (doi_char rt) suffix \<and>
        doi_last_char rt (last suffix))"

definition doi_shape :: "runtime \<Rightarrow> ustr \<Rightarrow> bool" where
  "doi_shape rt s \<longleftrightarrow> (\<exists>p u rest. s = p @ u @ rest \<and> doi_prefix rt p \<and> doi_body rt u)"

text \<open>
  The shape as the specification words it: the suffix is any non-empty string of
  characters of the class.
\<close>

definition doi_body_claimed :: "runtime \<Rightarrow> ustr \<Rightarrow> bool" where
  "doi_body_claimed rt u \<longleftrightarrow>
     (\<exists>ds sep suffix.
        u = ascii ''10.'' @ ds @ sep @ suffix \<and>
        length ds = 4 \<and> list_all (is_digit rt) ds \<and>
        (sep = ascii ''/'' \<or> sep = ascii ''%2f'') \<and>
        suffix \<noteq> [] \<and> list_all (doi_char rt) suffix)"

definition doi_shape_claimed :: "runtime \<Rightarrow> ustr \<Rightarrow> bool" where
  "doi_shape_claimed rt s \<longleftrightarrow>
     (\<exists>p u. s = p @ u \<and> doi_prefix rt p \<and> doi_body_claimed rt u)"

section \<open>Facts about dictionaries and the builder's primitives\<close>

lemma dict_get_set [simp]:
  "dict_get (dict_set d k v) k' = (if k' = k then Some v else dict_get d k')"
  by (induction d) (auto simp: dict_get_def)

lemma dict_has_get: "dict_has d k \<longleftrightarrow> dict_get d k \<noteq> None"
  by (simp add: dict_has_def dict_get_def map_of_eq_None_iff)

lemma dict_get_Nil [simp]: "dict_get [] k = None"
  by (simp add: dict_get_def)

lemma dict_get_Cons [simp]:
  "dict_get ((k, v) # d) k' = (if k' = k then Some v else dict_get d k')"
  by (simp add: dict_get_def)

lemma dict_set_absent: "dict_get d k = None \<Longrightarrow> dict_set d k v = d @ [(k, v)]"
  by (induction d) (auto simp: dict_get_def split: if_splits)

lemma get_ensure_field_in [simp]:
  "dict_get (ensure_field_in f v d) k =
     (if k = f \<and> dict_get d f = None then Some v else dict_get d k)"
  by (simp add: ensure_field_in_def dict_has_get)

lemma get_ensure_field [simp]:
  "dict_get (obj (ensure_field f v b)) k =
     (if k = f \<and> dict_get (obj b) f = None then Some v else dict_get (obj b) k)"
  by (simp add: ensure_field_def)

lemma source_ensure_field [simp]: "source (ensure_field f v b) = source b"
  by (simp add: ensure_field_def)

lemma get_set_item [simp]:
  "dict_get (obj (set_item f v b)) k = (if k = f then Some v else dict_get (obj b) k)"
  by (simp add: set_item_def)

lemma source_set_item [simp]: "source (set_item f v b) = source b"
  by (simp add: set_item_def)

lemma get_source_ensure_field [simp]: "get_source (ensure_field f v b) s = get_source b s"
  by (simp add: get_source_def split: option.splits)

lemma py_append_list:
  "dict_get (obj b) f = Some (PList xs) \<Longrightarrow>
     py_append f v b = (None, set_item f (PList (xs @ [v])) b)"
  by (simp add: py_append_def append_in_def set_item_def)

lemma py_extend_list:
  "dict_get (obj b) f = Some (PList xs) \<Longrightarrow>
     py_extend f vs b = (None, set_item f (PList (xs @ vs)) b)"
  by (simp add: py_extend_def extend_in_def set_item_def)

lemma get_py_append:
  "dict_get (obj (snd (py_append f v b))) k =
     (if k = f then (case dict_get (obj b) f of
                       Some (PList xs) \<Rightarrow> Some (PList (xs @ [v]))
                     | x \<Rightarrow> x)
      else dict_get (obj b) k)"
  by (simp add: py_append_def append_in_def split: option.splits pyval.splits)

lemma get_py_extend:
  "dict_get (obj (snd (py_extend f vs b))) k =
     (if k = f then (case dict_get (obj b) f of
                       Some (PList xs) \<Rightarrow> Some (PList (xs @ vs))
                     | x \<Rightarrow> x)
      else dict_get (obj b) k)"
  by (simp add: py_extend_def extend_in_def split: option.splits pyval.splits)

lemma source_py_append [simp]: "source (snd (py_append f v b)) = source b"
  by (simp add: py_append_def split: sum.splits)

lemma source_py_extend [simp]: "source (snd (py_extend f vs b)) = source b"
  by (simp add: py_extend_def split: sum.splits)

lemma snd_and_then:
  "snd (and_then r g) = (case fst r of Some e \<Rightarrow> snd r | None \<Rightarrow> snd (g (snd r)))"
  by (cases r) (auto simp: and_then_def split: option.splits)

lemma fst_py_append:
  "fst (py_append f v b) = (case dict_get (obj b) f of
                       Some (PList xs) \<Rightarrow> None
                     | None \<Rightarrow> Some KeyError | _ \<Rightarrow> Some AttributeError)"
  by (simp add: py_append_def append_in_def split: option.splits pyval.splits)


section \<open>What one call and a session do to a field\<close>

lemma sourced_get_source: "PStr (get_source b s) = sourced (source b) s"
  by (simp add: sourced_def get_source_def)

lemma get_ensure_append:
  "dict_get (obj (snd (py_append f v (ensure_field f (PList []) b)))) k =
     (if k = f then seq_add (dict_get (obj b) f) [v] else dict_get (obj b) k)"
  by (simp add: get_py_append seq_add_def split: option.splits pyval.splits)

lemma get_ensure_extend:
  "dict_get (obj (snd (py_extend f vs (ensure_field f (PList []) b)))) k =
     (if k = f then seq_add (dict_get (obj b) f) vs else dict_get (obj b) k)"
  by (simp add: get_py_extend seq_add_def split: option.splits pyval.splits)

lemma snd_done_ok [simp]: "snd (done_ok b) = b"
  by (simp add: done_ok_def)

lemma fst_done_ok [simp]: "fst (done_ok b) = None"
  by (simp add: done_ok_def)

lemma get_ensure_only:
  "dict_get (obj (ensure_field f (PList []) b)) k =
     (if k = f then seq_add (dict_get (obj b) f) [] else dict_get (obj b) k)"
  by (simp add: seq_add_def split: option.splits pyval.splits)

lemma get_then_citeable:
  "k \<noteq> ''citeable'' \<Longrightarrow>
   dict_get (obj (snd (and_then r (\<lambda>b2. if P b2 then done_ok (set_item ''citeable'' v b2) else done_ok b2)))) k =
     dict_get (obj (snd r)) k"
  by (cases r) (simp add: and_then_def done_ok_def split: option.splits)

lemma get_then_citeable':
  "k \<noteq> ''citeable'' \<Longrightarrow>
   dict_get (obj (snd (and_then r (\<lambda>b2. done_ok (set_item ''citeable'' v b2))))) k =
     dict_get (obj (snd r)) k"
  by (cases r) (simp add: and_then_def done_ok_def split: option.splits)

lemma get_exec:
  assumes "k \<noteq> ''citeable''" "k \<noteq> ''thesis_info''" "k \<noteq> ''acquisition_source''"
    "\<And>d. c = AddPreprintDate d \<Longrightarrow> k \<noteq> ''preprint_date''"
  shows "dict_get (obj (snd (exec rt c b))) k =
     (if adds_to c = Some k then seq_add (dict_get (obj b) k) (contribution rt (source b) c)
      else dict_get (obj b) k)"
proof (cases c)
  case (AddAbstract a s)
  then show ?thesis by (simp add: add_abstract_def get_ensure_append sourced_get_source)
next
  case (AddArxivEprint i cs)
  then show ?thesis using assms(1)
    by (simp add: add_arxiv_eprint_def get_then_citeable' get_ensure_append)
next
  case (AddDoi d s)
  then show ?thesis using assms(1)
    by (simp add: add_doi_def get_then_citeable' get_ensure_append get_ensure_only
          sourced_get_source del: get_ensure_field)
next
  case (AddPublicationInfo y c a pe ps ji jt jv)
  then show ?thesis using assms(1)
    by (simp add: add_publication_info_def get_then_citeable get_ensure_append Let_def)
next
  case (AddPreprintDate d)
  with assms(4) have "k \<noteq> ''preprint_date''"
    by simp
  with AddPreprintDate show ?thesis
    by (simp add: add_preprint_date_def get_py_append)
next
  case (AddThesis dd dt i d)
  then show ?thesis using assms(2)
    by (simp add: add_thesis_def Let_def)
next
  case (AddAcquisitionSource n e s m orc)
  then show ?thesis using assms(3)
    by (simp add: add_acquisition_source_def Let_def split: option.splits)
next
  case (MakeAuthor n affs su)
  then show ?thesis by (simp split: sum.splits)
next
  case (AddInspireCategories ts s)
  then show ?thesis
    by (simp add: add_inspire_categories_def get_ensure_extend sourced_get_source)
next
  case (AddReportNumbers rs s)
  then show ?thesis
    by (simp add: add_report_numbers_def get_ensure_extend sourced_get_source)
qed (simp_all add: add_author_def add_private_notes_def add_imprint_date_def
       add_accelerator_experiment_def add_language_def add_license_url_def add_public_note_def
       add_title_def add_title_translation_def add_url_def add_collaboration_def
       add_document_type_def get_ensure_append sourced_get_source)

lemma sequence_field_distinct:
  "f \<in> set sequence_fields \<Longrightarrow>
     f \<noteq> ''citeable'' \<and> f \<noteq> ''thesis_info'' \<and> f \<noteq> ''acquisition_source'' \<and> f \<noteq> ''preprint_date''"
  by (auto simp: sequence_fields_def)

lemma source_and_then:
  "source (snd r) = s \<Longrightarrow> (\<And>b. source b = s \<Longrightarrow> source (snd (g b)) = s) \<Longrightarrow>
   source (snd (and_then r g)) = s"
  by (cases r) (auto simp: and_then_def split: option.splits)

lemmas method_defs =
  add_abstract_def add_arxiv_eprint_def add_doi_def add_author_def add_inspire_categories_def
  add_private_notes_def add_publication_info_def add_imprint_date_def add_preprint_date_def
  add_thesis_def add_accelerator_experiment_def add_language_def add_license_url_def
  add_public_note_def add_title_def add_title_translation_def add_url_def
  add_report_numbers_def add_collaboration_def add_acquisition_source_def
  add_document_type_def

lemma source_exec [simp]: "source (snd (exec rt c b)) = source b"
  by (cases c)
    (auto simp: method_defs Let_def intro!: source_and_then split: sum.splits option.splits)

lemma source_run [simp]: "source (run rt cs b) = source b"
  by (induction cs arbitrary: b) simp_all

lemma contributions_Nil [simp]: "contributions rt d f [] = []"
  by (simp add: contributions_def)

lemma contributions_Cons:
  "contributions rt d f (c # cs) =
     (if adds_to c = Some f then contribution rt d c else []) @ contributions rt d f cs"
  by (simp add: contributions_def)

lemma run_list:
  assumes "f \<in> set sequence_fields"
  shows "dict_get (obj b) f = Some (PList xs) \<Longrightarrow>
         dict_get (obj (run rt cs b)) f = Some (PList (xs @ contributions rt (source b) f cs))"
proof (induction cs arbitrary: b xs)
  case Nil
  then show ?case by simp
next
  case (Cons c cs)
  from sequence_field_distinct [OF assms]
  have "dict_get (obj (snd (exec rt c b))) f =
          (if adds_to c = Some f then seq_add (dict_get (obj b) f) (contribution rt (source b) c)
           else dict_get (obj b) f)"
    by (intro get_exec) simp_all
  with Cons.prems
  have "dict_get (obj (snd (exec rt c b))) f =
          Some (PList (xs @ (if adds_to c = Some f then contribution rt (source b) c else [])))"
    by (simp add: seq_add_def)
  from Cons.IH [OF this] show ?case
    by (simp add: contributions_Cons)
qed

lemma run_absent:
  assumes "f \<in> set sequence_fields"
  shows "dict_get (obj b) f = None \<Longrightarrow>
         dict_get (obj (run rt cs b)) f =
           (if added_to f cs then Some (PList (contributions rt (source b) f cs)) else None)"
proof (induction cs arbitrary: b)
  case Nil
  then show ?case by (simp add: added_to_def)
next
  case (Cons c cs)
  from sequence_field_distinct [OF assms]
  have step: "dict_get (obj (snd (exec rt c b))) f =
          (if adds_to c = Some f then seq_add (dict_get (obj b) f) (contribution rt (source b) c)
           else dict_get (obj b) f)"
    by (intro get_exec) simp_all
  show ?case
  proof (cases "adds_to c = Some f")
    case True
    with step Cons.prems
    have "dict_get (obj (snd (exec rt c b))) f = Some (PList ([] @ contribution rt (source b) c))"
      by (simp add: seq_add_def)
    from run_list [OF assms this, where cs = cs] True show ?thesis
      by (simp add: contributions_Cons added_to_def)
  next
    case False
    with step Cons.prems have "dict_get (obj (snd (exec rt c b))) f = None"
      by simp
    from Cons.IH [OF this] False show ?thesis
      by (simp add: contributions_Cons added_to_def)
  qed
qed

lemma contributions_append:
  "contributions rt d f (cs @ cs') = contributions rt d f cs @ contributions rt d f cs'"
  by (simp add: contributions_def)

lemma run_append: "run rt (cs @ cs') b = run rt cs' (run rt cs b)"
  by (induction cs arbitrary: b) simp_all

lemma adds_to_not_preprint [simp]: "adds_to c \<noteq> Some ''preprint_date''"
  by (cases c) simp_all

lemma adds_to_not_citeable [simp]: "adds_to c \<noteq> Some ''citeable''"
  by (cases c) simp_all

lemma preprint_exec:
  "dict_get (obj b) ''preprint_date'' = None \<or> dict_get (obj b) ''preprint_date'' = Some (PDict []) \<Longrightarrow>
   dict_get (obj (snd (exec rt c b))) ''preprint_date'' = None \<or>
   dict_get (obj (snd (exec rt c b))) ''preprint_date'' = Some (PDict [])"
proof (cases "\<exists>d. c = AddPreprintDate d")
  case True
  assume "dict_get (obj b) ''preprint_date'' = None \<or> dict_get (obj b) ''preprint_date'' = Some (PDict [])"
  with True show ?thesis
    by (auto simp: add_preprint_date_def get_py_append)
next
  case False
  assume inv: "dict_get (obj b) ''preprint_date'' = None \<or> dict_get (obj b) ''preprint_date'' = Some (PDict [])"
  from False have "dict_get (obj (snd (exec rt c b))) ''preprint_date'' = dict_get (obj b) ''preprint_date''"
    by (subst get_exec) simp_all
  with inv show ?thesis by simp
qed

lemma preprint_run:
  "dict_get (obj b) ''preprint_date'' = None \<or> dict_get (obj b) ''preprint_date'' = Some (PDict []) \<Longrightarrow>
   dict_get (obj (run rt cs b)) ''preprint_date'' = None \<or>
   dict_get (obj (run rt cs b)) ''preprint_date'' = Some (PDict [])"
proof (induction cs arbitrary: b)
  case Nil
  then show ?case by simp
next
  case (Cons c cs)
  from Cons.IH [OF preprint_exec [OF Cons.prems]] show ?case by simp
qed

lemma add_preprint_date_raises:
  "dict_get (obj b) ''preprint_date'' = None \<or> dict_get (obj b) ''preprint_date'' = Some (PDict []) \<Longrightarrow>
   fst (add_preprint_date d b) = Some AttributeError"
  by (auto simp: add_preprint_date_def fst_py_append)

lemma citeable_exec:
  "dict_get (obj b) ''citeable'' = Some (PBool True) \<Longrightarrow>
   dict_get (obj (snd (exec rt c b))) ''citeable'' = Some (PBool True)"
proof (cases c)
  case (AddArxivEprint i cs)
  assume "dict_get (obj b) ''citeable'' = Some (PBool True)"
  with AddArxivEprint show ?thesis
    by (simp add: add_arxiv_eprint_def Let_def snd_and_then get_py_append split: option.splits)
next
  case (AddDoi d s)
  assume "dict_get (obj b) ''citeable'' = Some (PBool True)"
  with AddDoi show ?thesis
    by (simp add: add_doi_def Let_def snd_and_then get_py_append split: option.splits)
next
  case (AddPublicationInfo y c a pe ps ji jt jv)
  assume "dict_get (obj b) ''citeable'' = Some (PBool True)"
  with AddPublicationInfo show ?thesis
    by (simp add: add_publication_info_def snd_and_then get_py_append Let_def split: option.splits)
next
  case (AddPreprintDate d)
  assume "dict_get (obj b) ''citeable'' = Some (PBool True)"
  with AddPreprintDate show ?thesis
    by (simp add: add_preprint_date_def get_py_append)
next
  case (AddThesis dd dt i d)
  assume "dict_get (obj b) ''citeable'' = Some (PBool True)"
  with AddThesis show ?thesis
    by (simp add: add_thesis_def Let_def)
next
  case (AddAcquisitionSource n e s m orc)
  assume "dict_get (obj b) ''citeable'' = Some (PBool True)"
  with AddAcquisitionSource show ?thesis
    by (simp add: add_acquisition_source_def Let_def split: option.splits)
next
  case (MakeAuthor n affs su)
  assume "dict_get (obj b) ''citeable'' = Some (PBool True)"
  with MakeAuthor show ?thesis by (simp split: sum.splits)
qed (simp_all add: add_abstract_def add_inspire_categories_def add_report_numbers_def add_author_def add_private_notes_def add_imprint_date_def
       add_accelerator_experiment_def add_language_def add_license_url_def add_public_note_def
       add_title_def add_title_translation_def add_url_def add_collaboration_def
       add_document_type_def get_py_append get_py_extend)

section \<open>Evaluation of the string and pattern functions\<close>

lemma uc_eq_iff [simp]: "uc a = uc b \<longleftrightarrow> a = b"
  by (simp add: uc_def)

lemma ascii_simps: "ascii [] = []" "ascii (a # as) = uc a # ascii as"
  by (simp_all add: ascii_def)

lemma ascii_append: "ascii (a @ b) = ascii a @ ascii b"
  by (simp add: ascii_def)

lemmas string_eval =
  ascii_simps upper_chars_def lower_chars_def digit_chars_def is_upper_def is_letter_def
  one_of_def remove_spaces_def py_strip_def

lemmas ascii_runtime_eval =
  ascii_runtime_def ascii_is_space_def ascii_space_chars_def ascii_is_digit_def
  ascii_is_word_def ascii_to_lower_def ascii_to_upper_def ascii_ignore_case_def
  ascii_lower_def

lemmas regex_eval =
  re_match_def lit_char_def one_of_ci_def RPlus_def string_eval

lemmas doi_eval =
  doi_normalization_def doi_pattern_def doi_prefix_pattern_def doi_group_pattern_def
  doi_char_def doi_last_char_def regex_eval ascii_runtime_eval

section \<open>Authors and publication entries\<close>

lemma make_author_eq:
  "make_author n affs su =
     Inr ([(''full_name'', PStr (normalize_author_name_with_comma n))] @
          (case affs of
             None \<Rightarrow> []
           | Some as \<Rightarrow> [(''affiliations'', PList [PGen (map (\<lambda>a. PDict [(''value'', PStr a)]) as)])]) @
          (if su \<noteq> PNone then [(''inspire_roles'', PList [PStr (ascii ''supervisor'')])] else []))"
  by (simp add: make_author_def ensure_field_in_def dict_has_def append_in_def Let_def
        split: option.splits)

lemma verify_initials_iff:
  "verify_author_name_initials s \<longleftrightarrow> list_all (\<lambda>c. is_upper c \<or> one_of ''. '' c) s"
  by (induction s) (auto simp: verify_author_name_initials_def re_match_def)

lemma py_split_no_sep: "sep \<notin> set s \<Longrightarrow> py_split sep s = [s]"
  by (induction s) auto

lemma py_split_first: "sep \<notin> set s \<Longrightarrow> py_split sep (s @ sep # r) = s # py_split sep r"
  by (induction s) auto

lemma normalize_eval:
  "normalize_author_name_with_comma (ascii ''Smith, J K'') = ascii ''Smith, JK''"
  "normalize_author_name_with_comma (ascii ''Smith, John'') = ascii ''Smith,  John''"
  by (simp_all add: normalize_author_name_with_comma_def verify_initials_iff string_eval)

lemma contributions_publication_info:
  "x \<in> set (contributions rt d ''publication_info'' cs) \<Longrightarrow> \<exists>item. x = PDict item"
proof (induction cs)
  case Nil
  then show ?case by simp
next
  case (Cons c cs)
  then show ?case
    by (cases c) (auto simp: contributions_Cons)
qed

lemma publication_info_reachable:
  "dict_get (obj (run rt cs (init src))) ''publication_info'' = None \<or>
   (\<exists>xs. dict_get (obj (run rt cs (init src))) ''publication_info'' = Some (PList xs) \<and>
         (\<forall>k. PStr k \<notin> set xs))"
proof -
  have f: "''publication_info'' \<in> set sequence_fields"
    by (simp add: sequence_fields_def)
  have "dict_get (obj (init src)) ''publication_info'' = None"
    by (simp add: init_def)
  from run_absent [OF f this, where cs = cs and rt = rt] show ?thesis
    by (auto dest: contributions_publication_info)
qed

lemma add_publication_info_citeable:
  assumes "dict_get (obj b) ''publication_info'' = None \<or>
   (\<exists>xs. dict_get (obj b) ''publication_info'' = Some (PList xs) \<and>
         (\<forall>k. PStr k \<notin> set xs))"
  shows "dict_get (obj (snd (add_publication_info rt y c a pe ps ji jt jv b))) ''citeable'' =
         dict_get (obj b) ''citeable''"
  using assms
  by (auto simp: add_publication_info_def Let_def snd_and_then fst_py_append get_py_append
        list_contains_def)

lemma get_put_supplied:
  "dict_get (put_supplied k v d) k' = (if k' = k \<and> v \<noteq> None then v else dict_get d k')"
  by (simp add: put_supplied_def split: option.splits)

lemma add_publication_info_appends:
  assumes "dict_get (obj b) ''publication_info'' = None \<and> xs = [] \<or>
           dict_get (obj b) ''publication_info'' = Some (PList xs)"
  shows "fst (add_publication_info rt y c a pe ps ji jt jv b) = None \<and>
         dict_get (obj (snd (add_publication_info rt y c a pe ps ji jt jv b))) ''publication_info'' =
           Some (PList (xs @ [PDict (publication_item rt y c a pe ps ji jt jv)]))"
proof -
  let ?b1 = "ensure_field ''publication_info'' (PList []) b"
  from assms have g: "dict_get (obj ?b1) ''publication_info'' = Some (PList xs)"
    by auto
  show ?thesis
    by (simp add: add_publication_info_def Let_def py_append_list [OF g] and_then_def done_ok_def)
qed

lemma number_of_pages_some:
  "py_int rt [] = None \<Longrightarrow> py_int rt s = Some m \<Longrightarrow> py_int rt e = Some n \<Longrightarrow>
   dict_get (publication_item rt y c a (Some e) (Some s) ji jt jv) ''number_of_pages'' =
     Some (PInt (n - m + 1))"
  by (auto simp: publication_item_def Let_def)

lemma number_of_pages_none:
  "(ps = Some s \<and> py_int rt s = None) \<or> (pe = Some e \<and> py_int rt e = None) \<Longrightarrow>
   dict_get (publication_item rt y c a pe ps ji jt jv) ''number_of_pages'' = None"
  by (auto simp: publication_item_def Let_def get_put_supplied split: option.splits)

lemma ascii_int_eval:
  "ascii_int [] = None"
  "ascii_int (ascii ''1'') = Some 1" "ascii_int (ascii ''10'') = Some 10"
  "ascii_int (ascii ''x'') = None" "ascii_int (ascii '' 1_0 '') = Some 10"
  "ascii_int (ascii ''20'') = Some 20"
  by (simp_all add: ascii_int_def digits_value_def digit_value_def ascii_is_space_def
        ascii_space_chars_def ascii_is_digit_def string_eval)

section \<open>The matcher and the language of a pattern\<close>

lemma star_k_iff: "star_k p s k \<longleftrightarrow> (\<exists>u t. s = u @ t \<and> list_all p u \<and> k t)"
proof (induction s)
  case Nil
  then show ?case by simp
next
  case (Cons c cs)
  show ?case
  proof
    assume "star_k p (c # cs) k"
    then consider "p c" "star_k p cs k" | "k (c # cs)"
      by auto
    then show "\<exists>u t. c # cs = u @ t \<and> list_all p u \<and> k t"
    proof cases
      case 1
      with Cons.IH obtain u t where "cs = u @ t" "list_all p u" "k t"
        by blast
      with 1 have "c # cs = (c # u) @ t \<and> list_all p (c # u) \<and> k t"
        by simp
      then show ?thesis by blast
    next
      case 2
      then have "c # cs = [] @ (c # cs) \<and> list_all p [] \<and> k (c # cs)"
        by simp
      then show ?thesis by blast
    qed
  next
    assume "\<exists>u t. c # cs = u @ t \<and> list_all p u \<and> k t"
    then obtain u t where ut: "c # cs = u @ t" "list_all p u" "k t"
      by blast
    show "star_k p (c # cs) k"
    proof (cases u)
      case Nil
      with ut have "k (c # cs)" by simp
      then show ?thesis by simp
    next
      case (Cons a u')
      with ut have "a = c" "cs = u' @ t" "p c" "list_all p u'"
        by auto
      with ut Cons.IH show ?thesis by auto
    qed
  qed
qed

lemma in_lang_RCat: "x \<in> lang (RCat a b) \<longleftrightarrow> (\<exists>u v. x = u @ v \<and> u \<in> lang a \<and> v \<in> lang b)"
  by simp

lemma rex_k_iff: "rex_k r s k \<longleftrightarrow> (\<exists>u t. s = u @ t \<and> u \<in> lang r \<and> k t)"
proof (induction r arbitrary: s k)
  case REps
  then show ?case by simp
next
  case (RSym p)
  show ?case
  proof (cases s)
    case Nil
    then show ?thesis by simp
  next
    case (Cons a list)
    have "(\<exists>u t. a # list = u @ t \<and> (\<exists>c. u = [c] \<and> p c) \<and> k t) \<longleftrightarrow> (p a \<and> k list)"
    proof
      assume "\<exists>u t. a # list = u @ t \<and> (\<exists>c. u = [c] \<and> p c) \<and> k t"
      then obtain c t where "a # list = [c] @ t" "p c" "k t"
        by blast
      then show "p a \<and> k list" by simp
    next
      assume "p a \<and> k list"
      then have "a # list = [a] @ list \<and> (\<exists>c. [a] = [c] \<and> p c) \<and> k list"
        by simp
      then show "\<exists>u t. a # list = u @ t \<and> (\<exists>c. u = [c] \<and> p c) \<and> k t"
        by blast
    qed
    with Cons show ?thesis by simp
  qed
next
  case (RCat a b)
  have "rex_k (RCat a b) s k \<longleftrightarrow>
          (\<exists>u t. s = u @ t \<and> u \<in> lang a \<and> (\<exists>v w. t = v @ w \<and> v \<in> lang b \<and> k w))"
    by (simp add: RCat.IH)
  also have "\<dots> \<longleftrightarrow> (\<exists>u v w. s = (u @ v) @ w \<and> u \<in> lang a \<and> v \<in> lang b \<and> k w)"
    unfolding append_assoc by blast
  also have "\<dots> \<longleftrightarrow> (\<exists>x t. s = x @ t \<and> x \<in> lang (RCat a b) \<and> k t)"
    unfolding in_lang_RCat by blast
  finally show ?case .
next
  case (RAlt a b)
  then show ?case by auto
next
  case (ROpt a)
  then show ?case by auto
next
  case (RStar p)
  then show ?case by (simp add: star_k_iff)
qed

lemma re_match_iff: "re_match r s \<longleftrightarrow> (\<exists>u t. s = u @ t \<and> u \<in> lang r)"
  by (simp add: re_match_def rex_k_iff)

lemma in_lang_RSym: "x \<in> lang (RSym p) \<longleftrightarrow> (\<exists>c. x = [c] \<and> p c)"
  by simp

lemma in_lang_seq_Nil: "x \<in> lang (seq []) \<longleftrightarrow> x = []"
  by simp

lemma in_lang_seq_Cons:
  "x \<in> lang (seq (r # rs)) \<longleftrightarrow> (\<exists>u v. x = u @ v \<and> u \<in> lang r \<and> v \<in> lang (seq rs))"
  by simp

lemma in_lang_RPlus: "x \<in> lang (RPlus p) \<longleftrightarrow> x \<noteq> [] \<and> list_all p x"
proof
  assume "x \<in> lang (RPlus p)"
  then obtain c v where "x = [c] @ v" "p c" "list_all p v"
    by (auto simp: RPlus_def)
  then show "x \<noteq> [] \<and> list_all p x" by simp
next
  assume a: "x \<noteq> [] \<and> list_all p x"
  then obtain c v where x: "x = c # v" by (cases x) auto
  with a have "x = [c] @ v \<and> [c] \<in> lang (RSym p) \<and> v \<in> lang (RStar p)"
    by simp
  then show "x \<in> lang (RPlus p)"
    unfolding RPlus_def in_lang_RCat by blast
qed

lemma in_lang_lit: "u \<in> lang (lit rt w) \<longleftrightarrow> same_text rt w u"
proof (induction w arbitrary: u)
  case Nil
  then show ?case by (simp add: same_text_def)
next
  case (Cons a as)
  have "u \<in> lang (lit rt (a # as)) \<longleftrightarrow>
          (\<exists>c v. u = [c] @ v \<and> lit_char rt a c \<and> v \<in> lang (lit rt as))"
    unfolding lit.simps in_lang_RCat in_lang_RSym by blast
  also have "\<dots> \<longleftrightarrow> (\<exists>c v. u = c # v \<and> lit_char rt a c \<and> same_text rt as v)"
    by (simp add: Cons.IH)
  also have "\<dots> \<longleftrightarrow> same_text rt (a # as) u"
    by (auto simp: same_text_def list_all2_Cons1)
  finally show ?case .
qed

lemma same_text_plain:
  "\<forall>a \<in> set w. \<not> is_letter a \<Longrightarrow> same_text rt w u \<longleftrightarrow> u = ascii w"
proof (induction w arbitrary: u)
  case Nil
  then show ?case by (simp add: same_text_def ascii_simps)
next
  case (Cons a as)
  then have "\<And>v. list_all2 (lit_char rt) as v \<longleftrightarrow> v = ascii as" "\<not> is_letter a"
    by (simp_all add: same_text_def)
  then show ?case
    by (auto simp: same_text_def list_all2_Cons1 lit_char_def ascii_simps)
qed

lemma no_letters:
  "\<forall>a \<in> set ''10.''. \<not> is_letter a" "\<forall>a \<in> set ''/''. \<not> is_letter a"
  "\<forall>a \<in> set ''(''. \<not> is_letter a" "\<forall>a \<in> set '')''. \<not> is_letter a"
  "\<forall>a \<in> set '':''. \<not> is_letter a"
  by (simp_all add: is_letter_def upper_chars_def lower_chars_def)

lemma in_lang_lit_10: "u \<in> lang (lit rt ''10.'') \<longleftrightarrow> u = ascii ''10.''"
  unfolding in_lang_lit by (rule same_text_plain [OF no_letters(1)])

lemma in_lang_sep:
  "u \<in> lang (RAlt (lit rt ''/'') (lit rt ''%2f'')) \<longleftrightarrow>
     u = ascii ''/'' \<or> same_text rt ''%2f'' u"
  unfolding lang.simps Un_iff in_lang_lit same_text_plain [OF no_letters(2)] by (rule refl)

section \<open>The language of the DOI pattern\<close>

lemma doi_last_char_is_doi_char: "doi_last_char rt c \<Longrightarrow> doi_char rt c"
  by (auto simp: doi_last_char_def doi_char_def one_of_def ascii_simps)

lemma in_lang_suffix:
  "u \<in> lang (seq [RPlus (doi_char rt), RSym (doi_last_char rt)]) \<longleftrightarrow>
     2 \<le> length u \<and> list_all (doi_char rt) u \<and> doi_last_char rt (last u)"
proof
  assume "u \<in> lang (seq [RPlus (doi_char rt), RSym (doi_last_char rt)])"
  then obtain v c where "u = v @ [c]" "v \<noteq> []" "list_all (doi_char rt) v" "doi_last_char rt c"
    unfolding in_lang_seq_Cons in_lang_seq_Nil in_lang_RPlus in_lang_RSym by auto
  then show "2 \<le> length u \<and> list_all (doi_char rt) u \<and> doi_last_char rt (last u)"
    by (cases v) (auto simp: doi_last_char_is_doi_char)
next
  assume a: "2 \<le> length u \<and> list_all (doi_char rt) u \<and> doi_last_char rt (last u)"
  then have "u \<noteq> []" by auto
  then obtain v c where u: "u = v @ [c]"
    by (metis append_butlast_last_id)
  with a have "v \<noteq> []" "list_all (doi_char rt) v" "doi_last_char rt c"
    by auto
  with u have "\<exists>x y. u = x @ y \<and> (x \<noteq> [] \<and> list_all (doi_char rt) x) \<and>
                 (\<exists>x' y'. y = x' @ y' \<and> (\<exists>c. x' = [c] \<and> doi_last_char rt c) \<and> y' = [])"
    by auto
  then show "u \<in> lang (seq [RPlus (doi_char rt), RSym (doi_last_char rt)])"
    unfolding in_lang_seq_Cons in_lang_seq_Nil in_lang_RPlus in_lang_RSym .
qed

lemma in_lang_digits:
  "u \<in> lang (seq (RSym (is_digit rt) # RSym (is_digit rt) # RSym (is_digit rt) # RSym (is_digit rt) # rs)) \<longleftrightarrow>
     (\<exists>ds v. u = ds @ v \<and> length ds = 4 \<and> list_all (is_digit rt) ds \<and> v \<in> lang (seq rs))"
proof
  assume "u \<in> lang (seq (RSym (is_digit rt) # RSym (is_digit rt) # RSym (is_digit rt) # RSym (is_digit rt) # rs))"
  then obtain c1 c2 c3 c4 v where
    "u = [c1] @ [c2] @ [c3] @ [c4] @ v" "is_digit rt c1" "is_digit rt c2" "is_digit rt c3" "is_digit rt c4"
    "v \<in> lang (seq rs)"
    unfolding in_lang_seq_Cons in_lang_RSym by blast
  then have "u = [c1, c2, c3, c4] @ v \<and> length [c1, c2, c3, c4] = 4 \<and>
             list_all (is_digit rt) [c1, c2, c3, c4] \<and> v \<in> lang (seq rs)"
    by simp
  then show "\<exists>ds v. u = ds @ v \<and> length ds = 4 \<and> list_all (is_digit rt) ds \<and> v \<in> lang (seq rs)"
    by blast
next
  assume "\<exists>ds v. u = ds @ v \<and> length ds = 4 \<and> list_all (is_digit rt) ds \<and> v \<in> lang (seq rs)"
  then obtain ds v where d: "u = ds @ v" "length ds = 4" "list_all (is_digit rt) ds" "v \<in> lang (seq rs)"
    by blast
  from d(2) obtain c1 c2 c3 c4 where ds: "ds = [c1, c2, c3, c4]"
    by (auto simp: length_Suc_conv numeral_eq_Suc)
  with d have "u = [c1] @ [c2] @ [c3] @ [c4] @ v" "is_digit rt c1" "is_digit rt c2" "is_digit rt c3" "is_digit rt c4"
    by simp_all
  with d(4) show "u \<in> lang (seq (RSym (is_digit rt) # RSym (is_digit rt) # RSym (is_digit rt) # RSym (is_digit rt) # rs))"
    unfolding in_lang_seq_Cons in_lang_RSym by blast
qed

lemma in_lang_doi_group: "u \<in> lang (doi_group_pattern rt) \<longleftrightarrow> doi_body rt u"
proof -
  have "u \<in> lang (doi_group_pattern rt) \<longleftrightarrow>
          (\<exists>a r. u = a @ r \<and> a = ascii ''10.'' \<and>
             (\<exists>ds v. r = ds @ v \<and> length ds = 4 \<and> list_all (is_digit rt) ds \<and>
                (\<exists>sep suffix. v = sep @ suffix \<and>
                   (sep = ascii ''/'' \<or> same_text rt ''%2f'' sep) \<and>
                   (2 \<le> length suffix \<and> list_all (doi_char rt) suffix \<and>
                    doi_last_char rt (last suffix)))))"
    unfolding doi_group_pattern_def
    unfolding in_lang_seq_Cons [of _ "lit rt ''10.''"] in_lang_lit_10 in_lang_digits
      in_lang_seq_Cons [of _ "RAlt (lit rt ''/'') (lit rt ''%2f'')"] in_lang_sep in_lang_suffix
    by (rule refl)
  also have "\<dots> \<longleftrightarrow> doi_body rt u"
    unfolding doi_body_def by blast
  finally show ?thesis .
qed

lemma texts_Nil: "v \<in> lang (seq []) \<longleftrightarrow> (\<exists>w \<in> set [[]]. same_text rt w v)"
  by (simp add: same_text_def)

lemma same_text_append:
  "same_text rt (x @ w) u \<longleftrightarrow> (\<exists>a b. u = a @ b \<and> same_text rt x a \<and> same_text rt w b)"
proof
  assume "same_text rt (x @ w) u"
  then show "\<exists>a b. u = a @ b \<and> same_text rt x a \<and> same_text rt w b"
    unfolding same_text_def list_all2_append1 by blast
next
  assume "\<exists>a b. u = a @ b \<and> same_text rt x a \<and> same_text rt w b"
  then obtain a b where "u = a @ b" "list_all2 (lit_char rt) x a" "list_all2 (lit_char rt) w b"
    unfolding same_text_def by blast
  then show "same_text rt (x @ w) u"
    unfolding same_text_def by (simp add: list_all2_appendI)
qed

lemma texts_lit:
  assumes "\<And>v. v \<in> lang (seq rs) \<longleftrightarrow> (\<exists>w \<in> set W. same_text rt w v)"
  shows "u \<in> lang (seq (lit rt x # rs)) \<longleftrightarrow> (\<exists>w \<in> set (map ((@) x) W). same_text rt w u)"
proof -
  have "u \<in> lang (seq (lit rt x # rs)) \<longleftrightarrow>
          (\<exists>a b. u = a @ b \<and> same_text rt x a \<and> (\<exists>w \<in> set W. same_text rt w b))"
    unfolding in_lang_seq_Cons in_lang_lit assms by (rule refl)
  also have "\<dots> \<longleftrightarrow> (\<exists>w \<in> set W. same_text rt (x @ w) u)"
    unfolding same_text_append by blast
  also have "\<dots> \<longleftrightarrow> (\<exists>w \<in> set (map ((@) x) W). same_text rt w u)"
    by simp
  finally show ?thesis .
qed

lemma in_lang_opt_seq:
  "u \<in> lang (seq (ROpt r # rs)) \<longleftrightarrow> u \<in> lang (seq rs) \<or> u \<in> lang (seq (r # rs))"
proof -
  have "u \<in> lang (seq (ROpt r # rs)) \<longleftrightarrow>
          (\<exists>a b. u = a @ b \<and> (a = [] \<or> a \<in> lang r) \<and> b \<in> lang (seq rs))"
    unfolding in_lang_seq_Cons by simp
  also have "\<dots> \<longleftrightarrow> u \<in> lang (seq rs) \<or> (\<exists>a b. u = a @ b \<and> a \<in> lang r \<and> b \<in> lang (seq rs))"
    by auto
  finally show ?thesis
    unfolding in_lang_seq_Cons .
qed

lemma texts_opt_lit:
  assumes "\<And>v. v \<in> lang (seq rs) \<longleftrightarrow> (\<exists>w \<in> set W. same_text rt w v)"
  shows "u \<in> lang (seq (ROpt (lit rt x) # rs)) \<longleftrightarrow>
           (\<exists>w \<in> set (W @ map ((@) x) W). same_text rt w u)"
  unfolding in_lang_opt_seq texts_lit [of rs W, OF assms] assms by auto

lemma in_lang_url:
  "u \<in> lang (seq [lit rt ''http'', ROpt (lit rt ''s''), lit rt ''://'', ROpt (lit rt ''dx.''),
                   lit rt ''doi.org/'']) \<longleftrightarrow>
     same_text rt ''http://doi.org/'' u \<or> same_text rt ''https://doi.org/'' u \<or>
     same_text rt ''http://dx.doi.org/'' u \<or> same_text rt ''https://dx.doi.org/'' u"
proof -
  note l1 = texts_lit [of "[]" "[[]]" rt _ "''doi.org/''", OF texts_Nil]
  note l2 = texts_opt_lit [of "[lit rt ''doi.org/'']" _ rt _ "''dx.''", OF l1]
  note l3 = texts_lit [of "[ROpt (lit rt ''dx.''), lit rt ''doi.org/'']" _ rt _ "''://''", OF l2]
  note l4 = texts_opt_lit [of "[lit rt ''://'', ROpt (lit rt ''dx.''), lit rt ''doi.org/'']" _ rt _
      "''s''", OF l3]
  note l5 = texts_lit [of "[ROpt (lit rt ''s''), lit rt ''://'', ROpt (lit rt ''dx.''),
      lit rt ''doi.org/'']" _ rt _ "''http''", OF l4]
  show ?thesis
    unfolding l5 by auto
qed

lemma in_lang_opt_punct:
  "u \<in> lang (ROpt (lit rt ''('')) \<longleftrightarrow> u = [] \<or> u = ascii ''(''"
  "u \<in> lang (ROpt (lit rt '')'')) \<longleftrightarrow> u = [] \<or> u = ascii '')''"
  "u \<in> lang (ROpt (lit rt '':'')) \<longleftrightarrow> u = [] \<or> u = ascii '':''"
  unfolding lang.simps insert_iff in_lang_lit
    same_text_plain [OF no_letters(3)] same_text_plain [OF no_letters(4)]
    same_text_plain [OF no_letters(5)]
  by (rule refl)+

lemma in_lang_RStar: "u \<in> lang (RStar p) \<longleftrightarrow> list_all p u"
  by simp

lemma seq_ConsE:
  assumes "x \<in> lang (seq (r # rs))"
  obtains u v where "x = u @ v" "u \<in> lang r" "v \<in> lang (seq rs)"
  using assms unfolding in_lang_seq_Cons by blast

lemma seq_ConsI: "u \<in> lang r \<Longrightarrow> v \<in> lang (seq rs) \<Longrightarrow> u @ v \<in> lang (seq (r # rs))"
  unfolding in_lang_seq_Cons by blast

lemma in_lang_doi_word:
  "p \<in> lang (seq [ROpt (lit rt ''(''), RSym (one_of_ci rt ''Dd''), RSym (one_of_ci rt ''Oo''),
                    RSym (one_of_ci rt ''Ii''), RStar (is_space rt), ROpt (lit rt '')''), ROpt (lit rt '':''),
                    RStar (is_space rt)]) \<longleftrightarrow>
     (\<exists>l x1 x2 x3 w1 r c w2.
        p = l @ [x1, x2, x3] @ w1 @ r @ c @ w2 \<and>
        (l = [] \<or> l = ascii ''('') \<and>
        one_of_ci rt ''Dd'' x1 \<and> one_of_ci rt ''Oo'' x2 \<and> one_of_ci rt ''Ii'' x3 \<and>
        list_all (is_space rt) w1 \<and> (r = [] \<or> r = ascii '')'') \<and> (c = [] \<or> c = ascii '':'') \<and>
        list_all (is_space rt) w2)"
  (is "?L \<longleftrightarrow> ?R")
proof
  assume ?L
  then obtain l v1 where 1: "p = l @ v1" "l \<in> lang (ROpt (lit rt ''(''))"
    and m1: "v1 \<in> lang (seq [RSym (one_of_ci rt ''Dd''), RSym (one_of_ci rt ''Oo''),
                    RSym (one_of_ci rt ''Ii''), RStar (is_space rt), ROpt (lit rt '')''), ROpt (lit rt '':''),
                    RStar (is_space rt)])"
    by (rule seq_ConsE)
  from m1 obtain a1 v2 where 2: "v1 = a1 @ v2" "a1 \<in> lang (RSym (one_of_ci rt ''Dd''))"
    and m2: "v2 \<in> lang (seq [RSym (one_of_ci rt ''Oo''),
                    RSym (one_of_ci rt ''Ii''), RStar (is_space rt), ROpt (lit rt '')''), ROpt (lit rt '':''),
                    RStar (is_space rt)])"
    by (rule seq_ConsE)
  from m2 obtain a2 v3 where 3: "v2 = a2 @ v3" "a2 \<in> lang (RSym (one_of_ci rt ''Oo''))"
    and m3: "v3 \<in> lang (seq [RSym (one_of_ci rt ''Ii''), RStar (is_space rt), ROpt (lit rt '')''),
                    ROpt (lit rt '':''), RStar (is_space rt)])"
    by (rule seq_ConsE)
  from m3 obtain a3 v4 where 4: "v3 = a3 @ v4" "a3 \<in> lang (RSym (one_of_ci rt ''Ii''))"
    and m4: "v4 \<in> lang (seq [RStar (is_space rt), ROpt (lit rt '')''), ROpt (lit rt '':''), RStar (is_space rt)])"
    by (rule seq_ConsE)
  from m4 obtain w1 v5 where 5: "v4 = w1 @ v5" "w1 \<in> lang (RStar (is_space rt))"
    and m5: "v5 \<in> lang (seq [ROpt (lit rt '')''), ROpt (lit rt '':''), RStar (is_space rt)])"
    by (rule seq_ConsE)
  from m5 obtain r v6 where 6: "v5 = r @ v6" "r \<in> lang (ROpt (lit rt '')''))"
    and m6: "v6 \<in> lang (seq [ROpt (lit rt '':''), RStar (is_space rt)])"
    by (rule seq_ConsE)
  from m6 obtain c v7 where 7: "v6 = c @ v7" "c \<in> lang (ROpt (lit rt '':''))"
    and m7: "v7 \<in> lang (seq [RStar (is_space rt)])"
    by (rule seq_ConsE)
  from m7 obtain w2 v8 where 8: "v7 = w2 @ v8" "w2 \<in> lang (RStar (is_space rt))"
    and m8: "v8 \<in> lang (seq [])"
    by (rule seq_ConsE)
  from m8 have 9: "v8 = []"
    by simp
  from 2(2) 3(2) 4(2) obtain x1 x2 x3 where x: "a1 = [x1]" "a2 = [x2]" "a3 = [x3]"
    "one_of_ci rt ''Dd'' x1" "one_of_ci rt ''Oo'' x2" "one_of_ci rt ''Ii'' x3"
    unfolding in_lang_RSym by auto
  from 1(1) 2(1) 3(1) 4(1) 5(1) 6(1) 7(1) 8(1) 9 x(1-3)
  have "p = l @ [x1, x2, x3] @ w1 @ r @ c @ w2"
    by simp
  moreover from 1(2) have "l = [] \<or> l = ascii ''(''"
    unfolding in_lang_opt_punct .
  moreover from 6(2) have "r = [] \<or> r = ascii '')''"
    unfolding in_lang_opt_punct .
  moreover from 7(2) have "c = [] \<or> c = ascii '':''"
    unfolding in_lang_opt_punct .
  moreover from 5(2) 8(2) have "list_all (is_space rt) w1" "list_all (is_space rt) w2"
    by simp_all
  ultimately show ?R
    using x(4-6) by blast
next
  assume ?R
  then obtain l x1 x2 x3 w1 r c w2 where
    h: "p = l @ [x1, x2, x3] @ w1 @ r @ c @ w2"
    "l = [] \<or> l = ascii ''(''" "one_of_ci rt ''Dd'' x1" "one_of_ci rt ''Oo'' x2" "one_of_ci rt ''Ii'' x3"
    "list_all (is_space rt) w1" "r = [] \<or> r = ascii '')''" "c = [] \<or> c = ascii '':''" "list_all (is_space rt) w2"
    by blast
  have s0: "[] \<in> lang (seq [])"
    by simp
  from h(9) have "w2 \<in> lang (RStar (is_space rt))"
    by simp
  note s1 = seq_ConsI [OF this s0]
  from h(8) have "c \<in> lang (ROpt (lit rt '':''))"
    unfolding in_lang_opt_punct .
  note s2 = seq_ConsI [OF this s1]
  from h(7) have "r \<in> lang (ROpt (lit rt '')''))"
    unfolding in_lang_opt_punct .
  note s3 = seq_ConsI [OF this s2]
  from h(6) have "w1 \<in> lang (RStar (is_space rt))"
    by simp
  note s4 = seq_ConsI [OF this s3]
  from h(5) have "[x3] \<in> lang (RSym (one_of_ci rt ''Ii''))"
    by auto
  note s5 = seq_ConsI [OF this s4]
  from h(4) have "[x2] \<in> lang (RSym (one_of_ci rt ''Oo''))"
    by auto
  note s6 = seq_ConsI [OF this s5]
  from h(3) have "[x1] \<in> lang (RSym (one_of_ci rt ''Dd''))"
    by auto
  note s7 = seq_ConsI [OF this s6]
  from h(2) have "l \<in> lang (ROpt (lit rt ''(''))"
    unfolding in_lang_opt_punct .
  note s8 = seq_ConsI [OF this s7]
  from h(1) have "p = l @ [x1] @ [x2] @ [x3] @ w1 @ r @ c @ w2 @ []"
    by simp
  with s8 show ?L
    by (simp only:)
qed


lemma in_lang_doi_prefix: "p \<in> lang (ROpt (doi_prefix_pattern rt)) \<longleftrightarrow> doi_prefix rt p"
  unfolding doi_prefix_pattern_def lang.simps(5) lang.simps(4) insert_iff Un_iff
    in_lang_doi_word in_lang_url doi_prefix_def
  by (rule refl)

lemma doi_normalization_shape: "doi_normalization rt s \<longleftrightarrow> doi_shape rt s"
proof -
  have "doi_normalization rt s \<longleftrightarrow>
          (\<exists>x t. s = x @ t \<and> (\<exists>p u. x = p @ u \<and> doi_prefix rt p \<and> doi_body rt u))"
    unfolding doi_normalization_def re_match_iff doi_pattern_def in_lang_RCat
      in_lang_doi_prefix in_lang_doi_group by (rule refl)
  also have "\<dots> \<longleftrightarrow> (\<exists>p u rest. s = (p @ u) @ rest \<and> doi_prefix rt p \<and> doi_body rt u)"
    by blast
  finally show ?thesis
    unfolding doi_shape_def append_assoc .
qed

section \<open>What \<^verbatim>\<open>add_doi\<close> and the name normalization do\<close>

lemma add_doi_accepted:
  assumes "dict_get (obj b) ''dois'' = None \<and> xs = [] \<or>
           dict_get (obj b) ''dois'' = Some (PList xs)"
    and "doi_normalization rt doi"
  shows "fst (add_doi rt doi src b) = None"
    and "dict_get (obj (snd (add_doi rt doi src b))) ''dois'' =
           Some (PList (xs @ [PDict [(''value'', PStr doi),
                                     (''source'', PStr (get_source b src))]]))"
    and "dict_get (obj (snd (add_doi rt doi src b))) ''citeable'' = Some (PBool True)"
proof -
  let ?b1 = "ensure_field ''dois'' (PList []) b"
  from assms(1) have g: "dict_get (obj ?b1) ''dois'' = Some (PList xs)"
    by auto
  from assms(2) show "fst (add_doi rt doi src b) = None"
    by (simp add: add_doi_def Let_def py_append_list [OF g] and_then_def done_ok_def)
  from assms(2) show "dict_get (obj (snd (add_doi rt doi src b))) ''dois'' =
           Some (PList (xs @ [PDict [(''value'', PStr doi),
                                     (''source'', PStr (get_source b src))]]))"
    by (simp add: add_doi_def Let_def py_append_list [OF g] and_then_def done_ok_def)
  from assms(2) show "dict_get (obj (snd (add_doi rt doi src b))) ''citeable'' = Some (PBool True)"
    by (simp add: add_doi_def Let_def py_append_list [OF g] and_then_def done_ok_def)
qed

lemma add_doi_rejected:
  assumes "dict_get (obj b) ''dois'' = None \<and> xs = [] \<or>
           dict_get (obj b) ''dois'' = Some (PList xs)"
    and "\<not> doi_normalization rt doi"
  shows "fst (add_doi rt doi src b) = None"
    and "dict_get (obj (snd (add_doi rt doi src b))) ''dois'' = Some (PList xs)"
    and "dict_get (obj (snd (add_doi rt doi src b))) ''citeable'' = dict_get (obj b) ''citeable''"
  using assms by (auto simp: add_doi_def Let_def)

lemma doi_shape_eval:
  "doi_shape ascii_runtime (ascii ''10.1234/ab'')"
  "doi_shape ascii_runtime (ascii ''https://dx.doi.org/10.1234%2Fab.c'')"
  "\<not> doi_shape ascii_runtime (ascii ''not-a-doi'')"
  "\<not> doi_shape ascii_runtime (ascii ''10.1234/a'')"
  unfolding doi_normalization_shape [symmetric]
  by (simp_all add: doi_eval)

lemma normalize_one_comma:
  assumes "uc CHR '','' \<notin> set surname" "uc CHR '','' \<notin> set rest"
    and "list_all (\<lambda>c. is_upper c \<or> c = uc CHR ''.'' \<or> c = uc CHR '' '') rest"
  shows "normalize_author_name_with_comma (surname @ ascii '','' @ rest) =
           surname @ ascii '', '' @ remove_spaces rest"
proof -
  from assms(1,2) have "py_split (uc CHR '','') (surname @ ascii '','' @ rest) = [surname, rest]"
    by (simp add: py_split_first py_split_no_sep ascii_simps)
  moreover from assms(3) have "verify_author_name_initials rest"
    by (simp add: verify_initials_iff one_of_def ascii_simps)
  ultimately show ?thesis
    by (simp add: normalize_author_name_with_comma_def)
qed

lemma normalize_no_comma:
  "uc CHR '','' \<notin> set name \<Longrightarrow> normalize_author_name_with_comma name = name"
  by (simp add: normalize_author_name_with_comma_def py_split_no_sep)

section \<open>The claims\<close>

text \<open>
  Claim C10.  A call of \<^verbatim>\<open>add_doi\<close> with a string that the pattern rejects raises
  nothing and changes the builder in one way at most: when the record has no key
  \<^verbatim>\<open>dois\<close>, the key is added (last) with the empty list; when the record has the key,
  the builder is returned as it was.
\<close>

theorem rejected_doi_frame:
  "\<not> doi_normalization rt doi \<Longrightarrow>
     add_doi rt doi src b =
       (None, if dict_has (obj b) ''dois'' then b else b\<lparr>obj := obj b @ [(''dois'', PList [])]\<rparr>)"
  by (simp add: add_doi_def done_ok_def ensure_field_def ensure_field_in_def dict_set_absent
        dict_has_get)

theorem rejected_doi_frame_witness:
  "\<not> doi_normalization ascii_runtime (ascii ''not-a-doi'') \<and>
   add_doi ascii_runtime (ascii ''not-a-doi'') None (init (ascii ''src'')) =
     (None, \<lparr>obj = [(''dois'', PList [])], source = ascii ''src''\<rparr>) \<and>
   add_doi ascii_runtime (ascii ''not-a-doi'') None
       \<lparr>obj = [(''dois'', PList [PStr (ascii ''x'')])], source = ascii ''src''\<rparr> =
     (None, \<lparr>obj = [(''dois'', PList [PStr (ascii ''x'')])], source = ascii ''src''\<rparr>)"
proof -
  have h: "\<not> doi_normalization ascii_runtime (ascii ''not-a-doi'')"
    by (simp add: doi_eval)
  from rejected_doi_frame [OF h, where src = None and b = "init (ascii ''src'')"]
    rejected_doi_frame [OF h, where src = None
      and b = "\<lparr>obj = [(''dois'', PList [PStr (ascii ''x'')])], source = ascii ''src''\<rparr>"]
    h
  show ?thesis
    by (simp add: init_def dict_has_def)
qed

text \<open>
  Claim C9.  From any builder whose record has \<^verbatim>\<open>citeable\<close> bound to \<^verbatim>\<open>True\<close>, any
  further calls of the builder's methods (whether or not one of them raises) leave
  \<^verbatim>\<open>citeable\<close> bound to \<^verbatim>\<open>True\<close>.
\<close>

theorem citeable_stays_true:
  "dict_get (obj b) ''citeable'' = Some (PBool True) \<Longrightarrow>
   dict_get (obj (run rt cs b)) ''citeable'' = Some (PBool True)"
proof (induction cs arbitrary: b)
  case Nil
  then show ?case by simp
next
  case (Cons c cs)
  from Cons.IH [OF citeable_exec [OF Cons.prems]] show ?case by simp
qed

theorem citeable_stays_true_witness:
  "dict_get (obj (snd (add_arxiv_eprint (ascii ''1234.5678'') [ascii ''hep-th'']
                         (init (ascii ''src''))))) ''citeable'' =
     Some (PBool True) \<and>
   dict_get (obj (run ascii_runtime
                    [AddThesis None (Some (ascii ''PhD'')) None None,
                     AddDoi (ascii ''not-a-doi'') None,
                     AddPreprintDate (ascii ''2016-01-01'')]
                    (snd (add_arxiv_eprint (ascii ''1234.5678'') [ascii ''hep-th'']
                            (init (ascii ''src''))))))
       ''citeable'' = Some (PBool True)"
proof -
  have h: "dict_get (obj (snd (add_arxiv_eprint (ascii ''1234.5678'') [ascii ''hep-th'']
                                (init (ascii ''src''))))) ''citeable'' = Some (PBool True)"
    by (simp add: add_arxiv_eprint_def init_def snd_and_then get_py_append fst_py_append Let_def)
  from citeable_stays_true [OF h] h show ?thesis
    by blast
qed

text \<open>
  Claim C5.  The claim says that \<^verbatim>\<open>add_preprint_date\<close> returns normally and leaves an
  entry with the date in the container.  The method creates the container as a dict
  and then calls \<^verbatim>\<open>append\<close> on it: after any session on a new builder, and for every
  date, the call raises AttributeError; on a new builder it leaves
  \<^verbatim>\<open>preprint_date\<close> bound to the empty dict, with no entry.
\<close>

theorem add_preprint_date_always_raises:
  "fst (add_preprint_date d (run rt cs (init src))) = Some AttributeError \<and>
   add_preprint_date d (init src) =
     (Some AttributeError, \<lparr>obj = [(''preprint_date'', PDict [])], source = src\<rparr>)"
proof
  have "dict_get (obj (init src)) ''preprint_date'' = None \<or>
        dict_get (obj (init src)) ''preprint_date'' = Some (PDict [])"
    by (simp add: init_def)
  from add_preprint_date_raises [OF preprint_run [OF this]]
  show "fst (add_preprint_date d (run rt cs (init src))) = Some AttributeError" .
  show "add_preprint_date d (init src) =
     (Some AttributeError, \<lparr>obj = [(''preprint_date'', PDict [])], source = src\<rparr>)"
    by (simp add: add_preprint_date_def init_def ensure_field_def ensure_field_in_def
          dict_has_def py_append_def append_in_def)
qed

text \<open>
  Claim C8.  For a sequence field \<open>f\<close>: after any session on a new builder, the record
  has no key \<open>f\<close> if no call of the add method of \<open>f\<close> was made, and otherwise holds
  exactly the entries those calls contributed, in call order.  And from any builder in
  which \<open>f\<close> holds the list \<open>xs\<close>, any further calls leave \<open>xs\<close> in place as a prefix,
  followed by the entries the further calls contributed.
\<close>

theorem sequence_fields_accumulate:
  assumes "f \<in> set sequence_fields"
  shows "dict_get (obj (run rt cs (init src))) f =
           (if added_to f cs then Some (PList (contributions rt src f cs)) else None) \<and>
         (dict_get (obj b) f = Some (PList xs) \<longrightarrow>
            dict_get (obj (run rt cs' b)) f =
              Some (PList (xs @ contributions rt (source b) f cs')))"
proof
  have "dict_get (obj (init src)) f = None"
    by (simp add: init_def)
  from run_absent [OF assms this, where cs = cs and rt = rt]
  show "dict_get (obj (run rt cs (init src))) f =
           (if added_to f cs then Some (PList (contributions rt src f cs)) else None)"
    by (simp add: init_def)
  show "dict_get (obj b) f = Some (PList xs) \<longrightarrow>
            dict_get (obj (run rt cs' b)) f =
              Some (PList (xs @ contributions rt (source b) f cs'))"
    using run_list [OF assms] by blast
qed

theorem sequence_fields_accumulate_witness:
  "''abstracts'' \<in> set sequence_fields \<and>
   dict_get (obj (run ascii_runtime
                    [AddAbstract (ascii '' first '') None, AddTitle (ascii ''t'') None,
                     AddAbstract (ascii ''second'') (Some (ascii ''arxiv''))]
                    (init (ascii ''src'')))) ''abstracts'' =
     Some (PList [PDict [(''value'', PStr (ascii ''first'')), (''source'', PStr (ascii ''src''))],
                  PDict [(''value'', PStr (ascii ''second'')),
                         (''source'', PStr (ascii ''arxiv''))]]) \<and>
   dict_get (obj (run ascii_runtime
                    [AddDoi (ascii ''not-a-doi'') None, AddLanguage (ascii ''en'')]
                    \<lparr>obj = [(''languages'', PList [PStr (ascii ''fr'')])],
                     source = ascii ''src''\<rparr>))
       ''languages'' =
     Some (PList [PStr (ascii ''fr''), PStr (ascii ''en'')])"
proof -
  have h1: "''abstracts'' \<in> set sequence_fields"
    by (simp add: sequence_fields_def)
  have h2: "''languages'' \<in> set sequence_fields"
    by (simp add: sequence_fields_def)
  have h3: "dict_get (obj \<lparr>obj = [(''languages'', PList [PStr (ascii ''fr'')])],
                           source = ascii ''src''\<rparr>)
              ''languages'' = Some (PList [PStr (ascii ''fr'')])"
    by simp
  from sequence_fields_accumulate [OF h1, where rt = ascii_runtime
      and cs = "[AddAbstract (ascii '' first '') None, AddTitle (ascii ''t'') None,
                 AddAbstract (ascii ''second'') (Some (ascii ''arxiv''))]"
      and src = "ascii ''src''" and b = "init (ascii ''src'')" and xs = "[]" and cs' = "[]"]
    sequence_fields_accumulate [OF h2, where rt = ascii_runtime and cs = "[]"
      and src = "ascii ''src''"
      and b = "\<lparr>obj = [(''languages'', PList [PStr (ascii ''fr'')])], source = ascii ''src''\<rparr>"
      and xs = "[PStr (ascii ''fr'')]"
      and cs' = "[AddDoi (ascii ''not-a-doi'') None, AddLanguage (ascii ''en'')]"]
    h1 h3
  show ?thesis
    by (simp add: added_to_def contributions_def sourced_def string_eval ascii_runtime_eval)
qed

text \<open>
  Claim C1.  The claim says that \<^verbatim>\<open>add_publication_info\<close> sets \<^verbatim>\<open>citeable\<close> once the
  accumulated entries hold the keys year, journal_issue, journal_volume and one of
  page_start, page_end, artid.  The method tests \<^verbatim>\<open>key in self.obj['publication_info']\<close>,
  which compares the key with the entries of the list, and the entries are dicts: after
  any session on a new builder, a call of \<^verbatim>\<open>add_publication_info\<close> with any arguments
  leaves \<^verbatim>\<open>citeable\<close> as it was.  On a new builder, a call with year, journal_issue,
  journal_volume and artid appends the entry with all four keys and the record has no
  key \<^verbatim>\<open>citeable\<close>.
\<close>

theorem add_publication_info_never_sets_citeable:
  "dict_get (obj (snd (add_publication_info rt y c a pe ps ji jt jv (run rt cs (init src)))))
       ''citeable'' =
     dict_get (obj (run rt cs (init src))) ''citeable'' \<and>
   add_publication_info rt (Some 2015) None (Some (ascii ''A1'')) None None (Some (ascii ''2''))
       None (Some (ascii ''10'')) (init (ascii ''src'')) =
     (None, \<lparr>obj = [(''publication_info'',
                      PList [PDict [(''artid'', PStr (ascii ''A1'')),
                                    (''journal_issue'', PStr (ascii ''2'')),
                                    (''journal_volume'', PStr (ascii ''10'')),
                                    (''year'', PInt 2015)]])],
             source = ascii ''src''\<rparr>)"
proof
  from add_publication_info_citeable [OF publication_info_reachable]
  show "dict_get (obj (snd (add_publication_info rt y c a pe ps ji jt jv (run rt cs (init src)))))
       ''citeable'' =
     dict_get (obj (run rt cs (init src))) ''citeable''" .
  show "add_publication_info rt (Some 2015) None (Some (ascii ''A1'')) None None
       (Some (ascii ''2'')) None (Some (ascii ''10'')) (init (ascii ''src'')) =
     (None, \<lparr>obj = [(''publication_info'',
                      PList [PDict [(''artid'', PStr (ascii ''A1'')),
                                    (''journal_issue'', PStr (ascii ''2'')),
                                    (''journal_volume'', PStr (ascii ''10'')),
                                    (''year'', PInt 2015)]])],
             source = ascii ''src''\<rparr>)"
    by (simp add: add_publication_info_def publication_item_def put_supplied_def init_def
          ensure_field_def ensure_field_in_def dict_has_def py_append_def append_in_def
          and_then_def done_ok_def list_contains_def Let_def)
qed

text \<open>
  Claim C2.  The claim says that a call that does not supply \<^verbatim>\<open>supervisor\<close> returns an
  author without \<^verbatim>\<open>inspire_roles\<close>.  The default of the parameter is \<^verbatim>\<open>False\<close> and the
  test is \<^verbatim>\<open>supervisor is not None\<close>: for every name and all affiliations, such a call
  returns an author with \<^verbatim>\<open>inspire_roles\<close> bound to \<^verbatim>\<open>['supervisor']\<close>; a call that
  supplies \<^verbatim>\<open>supervisor\<close> attaches the role exactly when the value is not \<^verbatim>\<open>None\<close>; and
  \<^verbatim>\<open>make_author("Smith, John")\<close> returns the two keys shown.
\<close>

theorem make_author_default_supervisor:
  "(\<exists>author. call_make_author n affs None = Inr author \<and>
              dict_get author ''inspire_roles'' = Some (PList [PStr (ascii ''supervisor'')])) \<and>
   (\<exists>author. call_make_author n affs (Some v) = Inr author \<and>
              dict_get author ''inspire_roles'' =
                (if v = PNone then None else Some (PList [PStr (ascii ''supervisor'')]))) \<and>
   call_make_author (ascii ''Smith, John'') None None =
     Inr [(''full_name'', PStr (ascii ''Smith,  John'')),
          (''inspire_roles'', PList [PStr (ascii ''supervisor'')])]"
  by (simp add: call_make_author_def make_author_eq normalize_eval split: option.splits)

text \<open>
  Claim C4.  The claim says that \<^verbatim>\<open>affiliations=[a1, ..., aN]\<close> gives N entries
  \<^verbatim>\<open>{value: a_i}\<close>.  The method appends one generator expression: for every name, every
  list of affiliations and every \<^verbatim>\<open>supervisor\<close>, the field \<^verbatim>\<open>affiliations\<close> of the author
  is a list of one element, the generator object, and
  \<^verbatim>\<open>make_author("Smith, John", affiliations=["CERN", "MIT"])\<close> returns the dict shown.
\<close>

theorem make_author_affiliations_one_generator:
  "(\<exists>author. call_make_author n (Some affs) su = Inr author \<and>
              dict_get author ''affiliations'' =
                Some (PList [PGen (map (\<lambda>a. PDict [(''value'', PStr a)]) affs)])) \<and>
   call_make_author (ascii ''Smith, John'') (Some [ascii ''CERN'', ascii ''MIT'']) None =
     Inr [(''full_name'', PStr (ascii ''Smith,  John'')),
          (''affiliations'', PList [PGen [PDict [(''value'', PStr (ascii ''CERN''))],
                                          PDict [(''value'', PStr (ascii ''MIT''))]]]),
          (''inspire_roles'', PList [PStr (ascii ''supervisor'')])]"
  by (simp add: call_make_author_def make_author_eq normalize_eval split: option.splits)

text \<open>
  Claim C7.  \<^verbatim>\<open>int\<close> is the conversion of the runtime, whichever strings it reads
  (digit separators, white space around the digits, digits outside ASCII, a limit on
  the number of digits); the one fact about it that the theorem uses is that
  \<^verbatim>\<open>int('')\<close> raises.  On a builder whose \<^verbatim>\<open>publication_info\<close> is absent or a list,
  \<^verbatim>\<open>add_publication_info\<close> raises nothing and appends one entry.  When
  \<^verbatim>\<open>page_start\<close> and \<^verbatim>\<open>page_end\<close> are both supplied and \<^verbatim>\<open>int\<close> reads both, the
  entry has \<^verbatim>\<open>number_of_pages\<close> bound to \<^verbatim>\<open>int(page_end) - int(page_start) + 1\<close>;
  when a bound is supplied and \<^verbatim>\<open>int\<close> does not read it, the entry has no key
  \<^verbatim>\<open>number_of_pages\<close>.
\<close>

theorem number_of_pages:
  assumes "py_int rt [] = None"
    and "dict_get (obj b) ''publication_info'' = None \<and> xs = [] \<or>
         dict_get (obj b) ''publication_info'' = Some (PList xs)"
  shows "\<exists>item.
           fst (add_publication_info rt y c a pe ps ji jt jv b) = None \<and>
           dict_get (obj (snd (add_publication_info rt y c a pe ps ji jt jv b)))
               ''publication_info'' =
             Some (PList (xs @ [PDict item])) \<and>
           (\<forall>s e m n. ps = Some s \<and> pe = Some e \<and> py_int rt s = Some m \<and>
                       py_int rt e = Some n \<longrightarrow>
              dict_get item ''number_of_pages'' = Some (PInt (n - m + 1))) \<and>
           (\<forall>s e. (ps = Some s \<and> py_int rt s = None) \<or> (pe = Some e \<and> py_int rt e = None) \<longrightarrow>
              dict_get item ''number_of_pages'' = None)"
proof (intro exI conjI allI impI)
  from add_publication_info_appends [OF assms(2)]
  show "fst (add_publication_info rt y c a pe ps ji jt jv b) = None"
    by simp
  from add_publication_info_appends [OF assms(2)]
  show "dict_get (obj (snd (add_publication_info rt y c a pe ps ji jt jv b)))
               ''publication_info'' =
             Some (PList (xs @ [PDict (publication_item rt y c a pe ps ji jt jv)]))"
    by simp
next
  fix s e m n
  assume "ps = Some s \<and> pe = Some e \<and> py_int rt s = Some m \<and> py_int rt e = Some n"
  with assms(1)
  show "dict_get (publication_item rt y c a pe ps ji jt jv) ''number_of_pages'' =
               Some (PInt (n - m + 1))"
    by (simp add: number_of_pages_some)
next
  fix s e
  assume "(ps = Some s \<and> py_int rt s = None) \<or> (pe = Some e \<and> py_int rt e = None)"
  then show "dict_get (publication_item rt y c a pe ps ji jt jv) ''number_of_pages'' = None"
    by (rule number_of_pages_none)
qed

theorem number_of_pages_witness:
  "py_int ascii_runtime [] = None \<and>
   dict_get (obj (snd (add_publication_info ascii_runtime None None None (Some (ascii ''10''))
                         (Some (ascii ''1'')) None None None (init (ascii ''src'')))))
       ''publication_info'' =
     Some (PList [PDict [(''page_end'', PStr (ascii ''10'')), (''page_start'', PStr (ascii ''1'')),
                         (''number_of_pages'', PInt 10)]]) \<and>
   dict_get (obj (snd (add_publication_info ascii_runtime None None None (Some (ascii ''10''))
                         (Some (ascii ''x'')) None None None (init (ascii ''src'')))))
       ''publication_info'' =
     Some (PList [PDict [(''page_end'', PStr (ascii ''10'')),
                         (''page_start'', PStr (ascii ''x''))]]) \<and>
   dict_get (obj (snd (add_publication_info ascii_runtime None None None (Some (ascii ''20''))
                         (Some (ascii '' 1_0 '')) None None None (init (ascii ''src'')))))
       ''publication_info'' =
     Some (PList [PDict [(''page_end'', PStr (ascii ''20'')),
                         (''page_start'', PStr (ascii '' 1_0 '')),
                         (''number_of_pages'', PInt 11)]])"
proof -
  have i: "py_int ascii_runtime = ascii_int"
    by (simp add: ascii_runtime_def)
  have e: "py_int ascii_runtime [] = None"
    by (simp add: i ascii_int_eval)
  have ne: "ascii ''1'' \<noteq> []" "ascii ''10'' \<noteq> []" "ascii ''x'' \<noteq> []" "ascii ''20'' \<noteq> []"
    "ascii '' 1_0 '' \<noteq> []"
    by (simp_all add: ascii_simps)
  have h: "dict_get (obj (init (ascii ''src''))) ''publication_info'' = None \<and> [] = [] \<or>
           dict_get (obj (init (ascii ''src''))) ''publication_info'' = Some (PList [])"
    by (simp add: init_def)
  have p: "\<And>pe ps item item'.
     dict_get (obj (snd (add_publication_info ascii_runtime None None None pe ps None None None
                           (init (ascii ''src''))))) ''publication_info'' =
       Some (PList ([] @ [PDict item])) \<Longrightarrow>
     item = publication_item ascii_runtime None None None pe ps None None None"
    using add_publication_info_appends [OF h, where rt = ascii_runtime]
    by simp
  from number_of_pages [OF e h, where y = None and c = None and a = None
      and pe = "Some (ascii ''10'')" and ps = "Some (ascii ''1'')" and ji = None and jt = None
      and jv = None]
  obtain item1 where
    a1: "dict_get (obj (snd (add_publication_info ascii_runtime None None None
                              (Some (ascii ''10'')) (Some (ascii ''1'')) None None None
                              (init (ascii ''src''))))) ''publication_info'' =
          Some (PList ([] @ [PDict item1]))"
    and n1: "dict_get item1 ''number_of_pages'' = Some (PInt (10 - 1 + 1))"
    by (auto simp: i ascii_int_eval)
  from number_of_pages [OF e h, where y = None and c = None and a = None
      and pe = "Some (ascii ''10'')" and ps = "Some (ascii ''x'')" and ji = None and jt = None
      and jv = None]
  obtain item2 where
    a2: "dict_get (obj (snd (add_publication_info ascii_runtime None None None
                              (Some (ascii ''10'')) (Some (ascii ''x'')) None None None
                              (init (ascii ''src''))))) ''publication_info'' =
          Some (PList ([] @ [PDict item2]))"
    and n2: "dict_get item2 ''number_of_pages'' = None"
    by (auto simp: i ascii_int_eval)
  from number_of_pages [OF e h, where y = None and c = None and a = None
      and pe = "Some (ascii ''20'')" and ps = "Some (ascii '' 1_0 '')" and ji = None
      and jt = None and jv = None]
  obtain item3 where
    a3: "dict_get (obj (snd (add_publication_info ascii_runtime None None None
                              (Some (ascii ''20'')) (Some (ascii '' 1_0 '')) None None None
                              (init (ascii ''src''))))) ''publication_info'' =
          Some (PList ([] @ [PDict item3]))"
    and n3: "dict_get item3 ''number_of_pages'' = Some (PInt (20 - 10 + 1))"
    by (auto simp: i ascii_int_eval)
  from a1 a2 a3 e show ?thesis
    unfolding p [OF a1] p [OF a2] p [OF a3]
    by (simp add: publication_item_def put_supplied_def i ascii_int_eval ne Let_def)
qed

text \<open>
  Claim C3, amended.  For a name with exactly one comma whose part after the comma has
  only uppercase letters, periods and spaces, \<^verbatim>\<open>make_author\<close> returns as
  \<^verbatim>\<open>full_name\<close> the part before the comma, then \<^verbatim>\<open>", "\<close>, then the part after the
  comma with every space removed (no period is added).  A name with no comma is
  returned as it is.
\<close>

theorem make_author_full_name:
  "(uc CHR '','' \<notin> set surname \<and> uc CHR '','' \<notin> set rest \<and>
    (\<forall>c \<in> set rest. is_upper c \<or> c = uc CHR ''.'' \<or> c = uc CHR '' '') \<longrightarrow>
      (\<exists>author. call_make_author (surname @ ascii '','' @ rest) affs su = Inr author \<and>
                 dict_get author ''full_name'' =
                   Some (PStr (surname @ ascii '', '' @
                               filter (\<lambda>c. c \<noteq> uc CHR '' '') rest)))) \<and>
   (uc CHR '','' \<notin> set name \<longrightarrow>
      (\<exists>author. call_make_author name affs su = Inr author \<and>
                 dict_get author ''full_name'' = Some (PStr name)))"
proof (intro conjI impI)
  assume a: "uc CHR '','' \<notin> set surname \<and> uc CHR '','' \<notin> set rest \<and>
    (\<forall>c \<in> set rest. is_upper c \<or> c = uc CHR ''.'' \<or> c = uc CHR '' '')"
  then have "list_all (\<lambda>c. is_upper c \<or> c = uc CHR ''.'' \<or> c = uc CHR '' '') rest"
    by (simp add: list_all_iff)
  with a have "normalize_author_name_with_comma (surname @ ascii '','' @ rest) =
                 surname @ ascii '', '' @ remove_spaces rest"
    by (intro normalize_one_comma) simp_all
  then show "\<exists>author. call_make_author (surname @ ascii '','' @ rest) affs su = Inr author \<and>
                 dict_get author ''full_name'' =
                   Some (PStr (surname @ ascii '', '' @
                               filter (\<lambda>c. c \<noteq> uc CHR '' '') rest))"
    by (simp add: call_make_author_def make_author_eq remove_spaces_def)
next
  assume "uc CHR '','' \<notin> set name"
  then show "\<exists>author. call_make_author name affs su = Inr author \<and>
                 dict_get author ''full_name'' = Some (PStr name)"
    by (simp add: call_make_author_def make_author_eq normalize_no_comma)
qed

theorem make_author_full_name_witness:
  "(\<exists>author. call_make_author (ascii ''Smith, J K'') None (Some (PBool True)) = Inr author \<and>
              dict_get author ''full_name'' = Some (PStr (ascii ''Smith, JK''))) \<and>
   (\<exists>author. call_make_author (ascii ''Smith'') None (Some (PBool True)) = Inr author \<and>
              dict_get author ''full_name'' = Some (PStr (ascii ''Smith'')))"
proof -
  have h: "uc CHR '','' \<notin> set (ascii ''Smith'') \<and> uc CHR '','' \<notin> set (ascii '' J K'') \<and>
           (\<forall>c \<in> set (ascii '' J K''). is_upper c \<or> c = uc CHR ''.'' \<or> c = uc CHR '' '')"
    by (simp add: is_upper_def upper_chars_def ascii_simps)
  have n: "uc CHR '','' \<notin> set (ascii ''Smith'')"
    by (simp add: ascii_simps)
  from make_author_full_name [where surname = "ascii ''Smith''" and rest = "ascii '' J K''"
      and affs = None and su = "Some (PBool True)" and name = "ascii ''Smith''"] h n
  show ?thesis
    by (simp add: ascii_simps)
qed

text \<open>
  Claim C3 as stated fails: for \<^verbatim>\<open>"Smith, J K"\<close> the \<^verbatim>\<open>full_name\<close> is
  \<^verbatim>\<open>"Smith, JK"\<close>, not \<^verbatim>\<open>"Smith, J.K."\<close>, and for \<^verbatim>\<open>"Smith, John"\<close> it is
  \<^verbatim>\<open>"Smith,  John"\<close> with two spaces, not the name unchanged.
\<close>

theorem make_author_full_name_counterexample:
  "call_make_author (ascii ''Smith, J K'') None (Some (PBool True)) =
     Inr [(''full_name'', PStr (ascii ''Smith, JK'')),
          (''inspire_roles'', PList [PStr (ascii ''supervisor'')])] \<and>
   ascii ''Smith, JK'' \<noteq> ascii ''Smith, J.K.'' \<and>
   call_make_author (ascii ''Smith, John'') None (Some PNone) =
     Inr [(''full_name'', PStr (ascii ''Smith,  John''))] \<and>
   ascii ''Smith,  John'' \<noteq> ascii ''Smith, John''"
proof (intro conjI)
  show "call_make_author (ascii ''Smith, J K'') None (Some (PBool True)) =
     Inr [(''full_name'', PStr (ascii ''Smith, JK'')),
          (''inspire_roles'', PList [PStr (ascii ''supervisor'')])]"
    by (simp add: call_make_author_def make_author_eq normalize_eval)
  show "call_make_author (ascii ''Smith, John'') None (Some PNone) =
     Inr [(''full_name'', PStr (ascii ''Smith,  John''))]"
    by (simp add: call_make_author_def make_author_eq normalize_eval)
  show "ascii ''Smith, JK'' \<noteq> ascii ''Smith, J.K.''"
    by (simp add: ascii_simps)
  show "ascii ''Smith,  John'' \<noteq> ascii ''Smith, John''"
    by (simp add: ascii_simps)
qed

text \<open>
  Claim C6, amended.  The pattern of \<^verbatim>\<open>add_doi\<close> accepts exactly the strings of the shape
  \<open>doi_shape\<close>, with the classes \<^verbatim>\<open>\s\<close>, \<^verbatim>\<open>\w\<close>, \<^verbatim>\<open>\d\<close> and the comparison of letters
  of the runtime, whichever characters these take: the string begins with an optional
  prefix, \<^verbatim>\<open>10.\<close>, four digits, \<^verbatim>\<open>/\<close> or \<^verbatim>\<open>%2f\<close>, and a suffix of at least two
  characters, each a word character or one of \<^verbatim>\<open>-_:;()/.<>\<close>, the last one a word
  character or one of \<^verbatim>\<open>-_:;()/<>\<close>; anything may follow.  On a builder whose \<^verbatim>\<open>dois\<close> is absent or a list, for a string of the shape
  \<^verbatim>\<open>add_doi\<close> raises nothing, appends exactly one entry with the string and the
  resolved source, and sets \<^verbatim>\<open>citeable\<close> to \<^verbatim>\<open>True\<close>; for any other string it raises
  nothing, appends no entry and leaves \<^verbatim>\<open>citeable\<close> as it was.
\<close>

theorem add_doi_by_shape:
  assumes "dict_get (obj b) ''dois'' = None \<and> xs = [] \<or>
           dict_get (obj b) ''dois'' = Some (PList xs)"
  shows "(doi_shape rt doi \<longrightarrow>
            fst (add_doi rt doi src b) = None \<and>
            dict_get (obj (snd (add_doi rt doi src b))) ''dois'' =
              Some (PList (xs @ [PDict [(''value'', PStr doi),
                                        (''source'', PStr (get_source b src))]])) \<and>
            dict_get (obj (snd (add_doi rt doi src b))) ''citeable'' = Some (PBool True)) \<and>
         (\<not> doi_shape rt doi \<longrightarrow>
            fst (add_doi rt doi src b) = None \<and>
            dict_get (obj (snd (add_doi rt doi src b))) ''dois'' = Some (PList xs) \<and>
            dict_get (obj (snd (add_doi rt doi src b))) ''citeable'' =
              dict_get (obj b) ''citeable'')"
  using add_doi_accepted [OF assms, where doi = doi and src = src and rt = rt]
    add_doi_rejected [OF assms, where doi = doi and src = src and rt = rt]
  unfolding doi_normalization_shape by blast

theorem add_doi_by_shape_witness:
  "doi_shape ascii_runtime (ascii ''10.1234/ab'') \<and>
   dict_get (obj (snd (add_doi ascii_runtime (ascii ''10.1234/ab'') None (init (ascii ''src'')))))
       ''dois'' =
     Some (PList [PDict [(''value'', PStr (ascii ''10.1234/ab'')),
                         (''source'', PStr (ascii ''src''))]]) \<and>
   dict_get (obj (snd (add_doi ascii_runtime (ascii ''10.1234/ab'') None (init (ascii ''src'')))))
       ''citeable'' =
     Some (PBool True) \<and>
   \<not> doi_shape ascii_runtime (ascii ''not-a-doi'') \<and>
   dict_get (obj (snd (add_doi ascii_runtime (ascii ''not-a-doi'') None (init (ascii ''src'')))))
       ''dois'' = Some (PList []) \<and>
   dict_get (obj (snd (add_doi ascii_runtime (ascii ''not-a-doi'') None (init (ascii ''src'')))))
       ''citeable'' = None \<and>
   doi_shape ascii_runtime (ascii ''doi'' @ [0x1F] @ ascii ''10.1234/ab'') \<and>
   dict_get (obj (snd (add_doi ascii_runtime (ascii ''doi'' @ [0x1F] @ ascii ''10.1234/ab'')
                         None (init (ascii ''src''))))) ''dois'' =
     Some (PList [PDict [(''value'', PStr (ascii ''doi'' @ [0x1F] @ ascii ''10.1234/ab'')),
                         (''source'', PStr (ascii ''src''))]]) \<and>
   doi_shape (ascii_runtime\<lparr>is_word := \<lambda>c. ascii_is_word c \<or> c = 0xE9\<rparr>)
     (ascii ''10.1234/'' @ [0xE9, 0xE9]) \<and>
   dict_get (obj (snd (add_doi (ascii_runtime\<lparr>is_word := \<lambda>c. ascii_is_word c \<or> c = 0xE9\<rparr>)
                         (ascii ''10.1234/'' @ [0xE9, 0xE9]) None (init (ascii ''src'')))))
       ''dois'' =
     Some (PList [PDict [(''value'', PStr (ascii ''10.1234/'' @ [0xE9, 0xE9])),
                         (''source'', PStr (ascii ''src''))]])"
proof -
  have h: "dict_get (obj (init (ascii ''src''))) ''dois'' = None \<and> [] = [] \<or>
           dict_get (obj (init (ascii ''src''))) ''dois'' = Some (PList [])"
    by (simp add: init_def)
  have s1: "doi_shape ascii_runtime (ascii ''doi'' @ [0x1F] @ ascii ''10.1234/ab'')"
    unfolding doi_normalization_shape [symmetric]
    by (simp add: doi_eval uc_def)
  have s2: "doi_shape (ascii_runtime\<lparr>is_word := \<lambda>c. ascii_is_word c \<or> c = 0xE9\<rparr>)
              (ascii ''10.1234/'' @ [0xE9, 0xE9])"
    unfolding doi_normalization_shape [symmetric]
    by (simp add: doi_eval uc_def)
  from add_doi_by_shape [OF h, where rt = ascii_runtime and doi = "ascii ''10.1234/ab''"
      and src = None]
    add_doi_by_shape [OF h, where rt = ascii_runtime and doi = "ascii ''not-a-doi''"
      and src = None]
    add_doi_by_shape [OF h, where rt = ascii_runtime
      and doi = "ascii ''doi'' @ [0x1F] @ ascii ''10.1234/ab''" and src = None]
    add_doi_by_shape [OF h,
      where rt = "ascii_runtime\<lparr>is_word := \<lambda>c. ascii_is_word c \<or> c = 0xE9\<rparr>"
      and doi = "ascii ''10.1234/'' @ [0xE9, 0xE9]" and src = None]
    doi_shape_eval(1,3) s1 s2
  show ?thesis
    by (simp add: get_source_def init_def)
qed

text \<open>
  Claim C6 as stated fails: \<^verbatim>\<open>10.1234/a\<close> is \<^verbatim>\<open>10.\<close>, four digits, \<^verbatim>\<open>/\<close> and a
  non-empty suffix of the class, and \<^verbatim>\<open>add_doi\<close> appends no entry for it and does not
  set \<^verbatim>\<open>citeable\<close>.
\<close>

theorem add_doi_one_character_suffix_counterexample:
  "doi_shape_claimed ascii_runtime (ascii ''10.1234/a'') \<and>
   add_doi ascii_runtime (ascii ''10.1234/a'') None (init (ascii ''src'')) =
     (None, \<lparr>obj = [(''dois'', PList [])], source = ascii ''src''\<rparr>)"
proof
  have "ascii ''10.1234/a'' = ascii ''10.'' @ ascii ''1234'' @ ascii ''/'' @ ascii ''a'' \<and>
        length (ascii ''1234'') = 4 \<and>
        list_all (is_digit ascii_runtime) (ascii ''1234'') \<and>
        (ascii ''/'' = ascii ''/'' \<or> ascii ''/'' = ascii ''%2f'') \<and> ascii ''a'' \<noteq> [] \<and>
        list_all (doi_char ascii_runtime) (ascii ''a'')"
    by (simp add: doi_char_def ascii_runtime_eval string_eval)
  then have "doi_body_claimed ascii_runtime (ascii ''10.1234/a'')"
    unfolding doi_body_claimed_def by blast
  moreover have "doi_prefix ascii_runtime []"
    by (simp add: doi_prefix_def)
  ultimately have "ascii ''10.1234/a'' = [] @ ascii ''10.1234/a'' \<and>
                   doi_prefix ascii_runtime [] \<and>
                   doi_body_claimed ascii_runtime (ascii ''10.1234/a'')"
    by simp
  then show "doi_shape_claimed ascii_runtime (ascii ''10.1234/a'')"
    unfolding doi_shape_claimed_def by blast
  have "\<not> doi_normalization ascii_runtime (ascii ''10.1234/a'')"
    by (simp add: doi_eval)
  then show "add_doi ascii_runtime (ascii ''10.1234/a'') None (init (ascii ''src'')) =
     (None, \<lparr>obj = [(''dois'', PList [])], source = ascii ''src''\<rparr>)"
    by (simp add: add_doi_def done_ok_def ensure_field_def ensure_field_in_def dict_has_def
          init_def)
qed


end
